theory Spec2Isabelle
  imports Main "HOL-Library.Multiset"
begin

section \<open>Enumerations (models.py, lines 9-24)\<close>

text \<open>
  Both enumerations are \<^verbatim>\<open>class X(str, Enum)\<close>: a closed set of members, each
  with a string value. \<open>X_of_value s\<close> is Python's lookup by value \<^verbatim>\<open>X(s)\<close>, which
  raises \<^verbatim>\<open>ValueError\<close> (here: \<open>None\<close>) when no member has the value \<open>s\<close>.
\<close>

datatype AnalysisStatus = PENDING | PROCESSING | COMPLETED | FAILED

fun AnalysisStatus_value :: "AnalysisStatus \<Rightarrow> string" where
  "AnalysisStatus_value PENDING = ''pending''"
| "AnalysisStatus_value PROCESSING = ''processing''"
| "AnalysisStatus_value COMPLETED = ''completed''"
| "AnalysisStatus_value FAILED = ''failed''"

definition AnalysisStatus_members :: "AnalysisStatus list" where
  "AnalysisStatus_members = [PENDING, PROCESSING, COMPLETED, FAILED]"

definition AnalysisStatus_of_value :: "string \<Rightarrow> AnalysisStatus option" where
  "AnalysisStatus_of_value s =
     find (\<lambda>m. AnalysisStatus_value m = s) AnalysisStatus_members"

datatype MedicationType =
  TABLET | CAPSULE | SYRUP | INJECTION | DROPS | CREAM | OINTMENT | OTHER

fun MedicationType_value :: "MedicationType \<Rightarrow> string" where
  "MedicationType_value TABLET = ''tablet''"
| "MedicationType_value CAPSULE = ''capsule''"
| "MedicationType_value SYRUP = ''syrup''"
| "MedicationType_value INJECTION = ''injection''"
| "MedicationType_value DROPS = ''drops''"
| "MedicationType_value CREAM = ''cream''"
| "MedicationType_value OINTMENT = ''ointment''"
| "MedicationType_value OTHER = ''other''"

definition MedicationType_members :: "MedicationType list" where
  "MedicationType_members =
     [TABLET, CAPSULE, SYRUP, INJECTION, DROPS, CREAM, OINTMENT, OTHER]"

definition MedicationType_of_value :: "string \<Rightarrow> MedicationType option" where
  "MedicationType_of_value s =
     find (\<lambda>m. MedicationType_value m = s) MedicationType_members"


section \<open>Values\<close>

text \<open>
  A finite \<^verbatim>\<open>Decimal\<close> is an integer coefficient and a number of fractional
  digits: \<open>Decimal c p\<close> stands for \<open>c / 10 ^ p\<close>, so \<open>Decimal 15 1\<close> is 1.5 and
  \<open>Decimal (-1) 1\<close> is -0.1. Comparison is exact, by cross multiplication. The
  numeric bounds of the source (\<^verbatim>\<open>gt=0\<close>, \<^verbatim>\<open>ge=0.0\<close>, \<^verbatim>\<open>le=1.0\<close>, \<^verbatim>\<open>le=150\<close>) are
  written as such decimals too; the float literals 0.0 and 1.0 are exactly 0 and 1.
\<close>

datatype decimal = Decimal (unscaled: int) (places: nat)

fun decimal_le :: "decimal \<Rightarrow> decimal \<Rightarrow> bool" where
  "decimal_le (Decimal a p) (Decimal b q) = (a * 10 ^ q \<le> b * 10 ^ p)"

fun decimal_less :: "decimal \<Rightarrow> decimal \<Rightarrow> bool" where
  "decimal_less (Decimal a p) (Decimal b q) = (a * 10 ^ q < b * 10 ^ p)"

definition decimal_eq :: "decimal \<Rightarrow> decimal \<Rightarrow> bool" where
  "decimal_eq a b = (decimal_le a b \<and> decimal_le b a)"

text \<open>
  The number of decimal places that validation counts is that of the normalised
  decimal, trailing zeros dropped: 1.0000 has none, 0.1200 has two. A decimal with
  none is integral, and \<open>int_of_decimal\<close> is then its value.
\<close>

fun norm_places :: "int \<Rightarrow> nat \<Rightarrow> nat" where
  "norm_places c 0 = 0"
| "norm_places c (Suc p) = (if c mod 10 = 0 then norm_places (c div 10) p else Suc p)"

definition decimal_places_of :: "decimal \<Rightarrow> nat" where
  "decimal_places_of d = norm_places (unscaled d) (places d)"

definition is_integral :: "decimal \<Rightarrow> bool" where
  "is_integral d = (decimal_places_of d = 0)"

definition int_of_decimal :: "decimal \<Rightarrow> int" where
  "int_of_decimal d = unscaled d div 10 ^ places d"

text \<open>
  A \<^verbatim>\<open>datetime\<close> is an instant, counted in microseconds. \<open>pyval\<close> are the Python
  values the annotations of models.py range over; a \<^verbatim>\<open>dict\<close> is an association
  list, read with \<open>map_of\<close>. A finite \<^verbatim>\<open>float\<close> is given by the decimal that
  \<^verbatim>\<open>str\<close> prints for it: \<open>VFloat (Decimal 15 1)\<close> is the float 1.5. Infinities and
  NaN, of \<^verbatim>\<open>float\<close> and of \<^verbatim>\<open>Decimal\<close>, are left out.
\<close>

type_synonym datetime = int

datatype pyval =
    VNone
  | VBool bool
  | VInt int
  | VFloat decimal
  | VStr string
  | VDecimal decimal
  | VDatetime datetime
  | VStatus AnalysisStatus
  | VMedType MedicationType
  | VDict "(string \<times> pyval) list"
  | VList "pyval list"

type_synonym kwargs = "(string \<times> pyval) list"


section \<open>Field declarations\<close>

text \<open>
  Every attribute of a class of models.py is \<^verbatim>\<open>name: type = Field(...)\<close>. A
  \<open>field\<close> records what the declaration says: the name, the annotated type, the
  default (none: the field is required; \<^verbatim>\<open>default=v\<close>;
  \<^verbatim>\<open>default_factory=datetime.utcnow\<close>), the value constraints
  (\<^verbatim>\<open>max_length\<close>, \<^verbatim>\<open>gt\<close>, \<^verbatim>\<open>ge\<close>, \<^verbatim>\<open>le\<close>, \<^verbatim>\<open>decimal_places\<close>) and the column
  attributes (\<^verbatim>\<open>primary_key=True\<close>, \<^verbatim>\<open>unique=True\<close>, \<^verbatim>\<open>foreign_key="table.column"\<close>).
\<close>

datatype constraint =
    MaxLength nat
  | Gt decimal
  | Ge decimal
  | Le decimal
  | DecimalPlaces nat

datatype default = Required | Default pyval | DefaultFactoryUtcnow

datatype column_attr = PrimaryKey | Unique | ForeignKey string string

datatype ftype =
    TInt
  | TStr
  | TBool
  | TDecimal
  | TDatetime
  | TAnalysisStatus
  | TMedicationType
  | TDict
  | TOptional ftype
  | TList ftype
  | TModel "field list"
and field =
  Field (fname: string) (ftyp: ftype) (fdefault: default)
        (fconstraints: "constraint list") (fcolumn: "column_attr list")

text \<open>
  \<^verbatim>\<open>Relationship(back_populates=...)\<close>: the attribute's name, the class it points
  to, whether it is a \<^verbatim>\<open>List[...]\<close>, and the attribute on the other side. No
  relationship of models.py gives an ordering (\<^verbatim>\<open>order_by\<close>).
\<close>

datatype relationship =
  Relationship (rname: string) (rtarget: string) (rmany: bool) (back_populates: string)


section \<open>Persistent models (models.py, lines 28-165)\<close>

text \<open>
  One list of fields per class, in the order of the source. A table class
  (\<^verbatim>\<open>table=True\<close>) also has its \<^verbatim>\<open>__tablename__\<close> and its relationships.
\<close>

definition User_tablename :: string where
  "User_tablename = ''users''"

definition User_fields :: "field list" where
  "User_fields =
    [ Field ''id'' (TOptional TInt) (Default VNone) [] [PrimaryKey],
      Field ''name'' TStr Required [MaxLength 100] [],
      Field ''email'' TStr Required [MaxLength 255] [Unique],
      Field ''is_active'' TBool (Default (VBool True)) [] [],
      Field ''created_at'' TDatetime DefaultFactoryUtcnow [] [],
      Field ''updated_at'' TDatetime DefaultFactoryUtcnow [] [] ]"

definition User_relationships :: "relationship list" where
  "User_relationships =
    [ Relationship ''prescription_images'' ''PrescriptionImage'' True ''user'',
      Relationship ''analysis_sessions'' ''AnalysisSession'' True ''user'' ]"

definition PrescriptionImage_tablename :: string where
  "PrescriptionImage_tablename = ''prescription_images''"

definition PrescriptionImage_fields :: "field list" where
  "PrescriptionImage_fields =
    [ Field ''id'' (TOptional TInt) (Default VNone) [] [PrimaryKey],
      Field ''filename'' TStr Required [MaxLength 255] [],
      Field ''original_filename'' TStr Required [MaxLength 255] [],
      Field ''file_path'' TStr Required [MaxLength 500] [],
      Field ''file_size'' TInt Required [Gt (Decimal 0 0)] [],
      Field ''mime_type'' TStr Required [MaxLength 100] [],
      Field ''width'' (TOptional TInt) (Default VNone) [Ge (Decimal 0 0)] [],
      Field ''height'' (TOptional TInt) (Default VNone) [Ge (Decimal 0 0)] [],
      Field ''upload_timestamp'' TDatetime DefaultFactoryUtcnow [] [],
      Field ''user_id'' TInt Required [] [ForeignKey ''users'' ''id''] ]"

definition PrescriptionImage_relationships :: "relationship list" where
  "PrescriptionImage_relationships =
    [ Relationship ''user'' ''User'' False ''prescription_images'',
      Relationship ''prescriptions'' ''Prescription'' True ''image'',
      Relationship ''analysis_sessions'' ''AnalysisSession'' True ''image'' ]"

definition AnalysisSession_tablename :: string where
  "AnalysisSession_tablename = ''analysis_sessions''"

definition AnalysisSession_fields :: "field list" where
  "AnalysisSession_fields =
    [ Field ''id'' (TOptional TInt) (Default VNone) [] [PrimaryKey],
      Field ''status'' TAnalysisStatus (Default (VStatus PENDING)) [] [],
      Field ''started_at'' TDatetime DefaultFactoryUtcnow [] [],
      Field ''completed_at'' (TOptional TDatetime) (Default VNone) [] [],
      Field ''processing_time_seconds'' (TOptional TDecimal) (Default VNone) [DecimalPlaces 3] [],
      Field ''model_name'' TStr (Default (VStr ''gemini-flash'')) [MaxLength 100] [],
      Field ''model_version'' (TOptional TStr) (Default VNone) [MaxLength 50] [],
      Field ''error_message'' (TOptional TStr) (Default VNone) [MaxLength 1000] [],
      Field ''error_code'' (TOptional TStr) (Default VNone) [MaxLength 50] [],
      Field ''raw_response'' (TOptional TDict) (Default (VDict [])) [] [],
      Field ''confidence_score'' (TOptional TDecimal) (Default VNone) [DecimalPlaces 3, Ge (Decimal 0 1), Le (Decimal 10 1)] [],
      Field ''user_id'' TInt Required [] [ForeignKey ''users'' ''id''],
      Field ''image_id'' TInt Required [] [ForeignKey ''prescription_images'' ''id''] ]"

definition AnalysisSession_relationships :: "relationship list" where
  "AnalysisSession_relationships =
    [ Relationship ''user'' ''User'' False ''analysis_sessions'',
      Relationship ''image'' ''PrescriptionImage'' False ''analysis_sessions'',
      Relationship ''prescriptions'' ''Prescription'' True ''analysis_session'' ]"

definition Prescription_tablename :: string where
  "Prescription_tablename = ''prescriptions''"

definition Prescription_fields :: "field list" where
  "Prescription_fields =
    [ Field ''id'' (TOptional TInt) (Default VNone) [] [PrimaryKey],
      Field ''doctor_name'' (TOptional TStr) (Default VNone) [MaxLength 200] [],
      Field ''doctor_license'' (TOptional TStr) (Default VNone) [MaxLength 100] [],
      Field ''clinic_name'' (TOptional TStr) (Default VNone) [MaxLength 200] [],
      Field ''clinic_address'' (TOptional TStr) (Default VNone) [MaxLength 500] [],
      Field ''patient_name'' (TOptional TStr) (Default VNone) [MaxLength 200] [],
      Field ''patient_age'' (TOptional TInt) (Default VNone) [Ge (Decimal 0 0), Le (Decimal 150 0)] [],
      Field ''patient_gender'' (TOptional TStr) (Default VNone) [MaxLength 20] [],
      Field ''prescription_date'' (TOptional TDatetime) (Default VNone) [] [],
      Field ''prescription_number'' (TOptional TStr) (Default VNone) [MaxLength 100] [],
      Field ''diagnosis'' (TOptional TStr) (Default VNone) [MaxLength 1000] [],
      Field ''notes'' (TOptional TStr) (Default VNone) [MaxLength 2000] [],
      Field ''created_at'' TDatetime DefaultFactoryUtcnow [] [],
      Field ''updated_at'' TDatetime DefaultFactoryUtcnow [] [],
      Field ''image_id'' TInt Required [] [ForeignKey ''prescription_images'' ''id''],
      Field ''analysis_session_id'' TInt Required [] [ForeignKey ''analysis_sessions'' ''id''] ]"

definition Prescription_relationships :: "relationship list" where
  "Prescription_relationships =
    [ Relationship ''image'' ''PrescriptionImage'' False ''prescriptions'',
      Relationship ''analysis_session'' ''AnalysisSession'' False ''prescriptions'',
      Relationship ''medications'' ''Medication'' True ''prescription'' ]"

definition Medication_tablename :: string where
  "Medication_tablename = ''medications''"

definition Medication_fields :: "field list" where
  "Medication_fields =
    [ Field ''id'' (TOptional TInt) (Default VNone) [] [PrimaryKey],
      Field ''name'' TStr Required [MaxLength 200] [],
      Field ''generic_name'' (TOptional TStr) (Default VNone) [MaxLength 200] [],
      Field ''brand_name'' (TOptional TStr) (Default VNone) [MaxLength 200] [],
      Field ''medication_type'' (TOptional TMedicationType) (Default VNone) [] [],
      Field ''strength'' (TOptional TStr) (Default VNone) [MaxLength 100] [],
      Field ''dosage_form'' (TOptional TStr) (Default VNone) [MaxLength 100] [],
      Field ''dosage_instructions'' (TOptional TStr) (Default VNone) [MaxLength 500] [],
      Field ''frequency'' (TOptional TStr) (Default VNone) [MaxLength 200] [],
      Field ''duration'' (TOptional TStr) (Default VNone) [MaxLength 200] [],
      Field ''quantity'' (TOptional TStr) (Default VNone) [MaxLength 100] [],
      Field ''before_after_meal'' (TOptional TStr) (Default VNone) [MaxLength 100] [],
      Field ''special_instructions'' (TOptional TStr) (Default VNone) [MaxLength 1000] [],
      Field ''order_index'' TInt (Default (VInt 0)) [Ge (Decimal 0 0)] [],
      Field ''confidence_score'' (TOptional TDecimal) (Default VNone) [DecimalPlaces 3, Ge (Decimal 0 1), Le (Decimal 10 1)] [],
      Field ''created_at'' TDatetime DefaultFactoryUtcnow [] [],
      Field ''prescription_id'' TInt Required [] [ForeignKey ''prescriptions'' ''id''] ]"

definition Medication_relationships :: "relationship list" where
  "Medication_relationships =
    [ Relationship ''prescription'' ''Prescription'' False ''medications'' ]"


section \<open>Request shapes (models.py, lines 169-267)\<close>

text \<open>
  The \<^verbatim>\<open>table=False\<close> classes that take input: the four \<^verbatim>\<open>Create\<close> shapes and
  \<^verbatim>\<open>PrescriptionImageUpload\<close>.
\<close>

definition UserCreate_fields :: "field list" where
  "UserCreate_fields =
    [ Field ''name'' TStr Required [MaxLength 100] [],
      Field ''email'' TStr Required [MaxLength 255] [] ]"

definition PrescriptionImageUpload_fields :: "field list" where
  "PrescriptionImageUpload_fields =
    [ Field ''filename'' TStr Required [MaxLength 255] [],
      Field ''file_size'' TInt Required [Gt (Decimal 0 0)] [],
      Field ''mime_type'' TStr Required [MaxLength 100] [],
      Field ''width'' (TOptional TInt) (Default VNone) [Ge (Decimal 0 0)] [],
      Field ''height'' (TOptional TInt) (Default VNone) [Ge (Decimal 0 0)] [] ]"

definition AnalysisSessionCreate_fields :: "field list" where
  "AnalysisSessionCreate_fields =
    [ Field ''image_id'' TInt Required [] [],
      Field ''model_name'' TStr (Default (VStr ''gemini-flash'')) [MaxLength 100] [],
      Field ''model_version'' (TOptional TStr) (Default VNone) [MaxLength 50] [] ]"

definition MedicationCreate_fields :: "field list" where
  "MedicationCreate_fields =
    [ Field ''name'' TStr Required [MaxLength 200] [],
      Field ''generic_name'' (TOptional TStr) (Default VNone) [MaxLength 200] [],
      Field ''brand_name'' (TOptional TStr) (Default VNone) [MaxLength 200] [],
      Field ''medication_type'' (TOptional TMedicationType) (Default VNone) [] [],
      Field ''strength'' (TOptional TStr) (Default VNone) [MaxLength 100] [],
      Field ''dosage_form'' (TOptional TStr) (Default VNone) [MaxLength 100] [],
      Field ''dosage_instructions'' (TOptional TStr) (Default VNone) [MaxLength 500] [],
      Field ''frequency'' (TOptional TStr) (Default VNone) [MaxLength 200] [],
      Field ''duration'' (TOptional TStr) (Default VNone) [MaxLength 200] [],
      Field ''quantity'' (TOptional TStr) (Default VNone) [MaxLength 100] [],
      Field ''before_after_meal'' (TOptional TStr) (Default VNone) [MaxLength 100] [],
      Field ''special_instructions'' (TOptional TStr) (Default VNone) [MaxLength 1000] [],
      Field ''order_index'' TInt (Default (VInt 0)) [Ge (Decimal 0 0)] [],
      Field ''confidence_score'' (TOptional TDecimal) (Default VNone) [DecimalPlaces 3, Ge (Decimal 0 1), Le (Decimal 10 1)] [] ]"

definition PrescriptionCreate_fields :: "field list" where
  "PrescriptionCreate_fields =
    [ Field ''doctor_name'' (TOptional TStr) (Default VNone) [MaxLength 200] [],
      Field ''doctor_license'' (TOptional TStr) (Default VNone) [MaxLength 100] [],
      Field ''clinic_name'' (TOptional TStr) (Default VNone) [MaxLength 200] [],
      Field ''clinic_address'' (TOptional TStr) (Default VNone) [MaxLength 500] [],
      Field ''patient_name'' (TOptional TStr) (Default VNone) [MaxLength 200] [],
      Field ''patient_age'' (TOptional TInt) (Default VNone) [Ge (Decimal 0 0), Le (Decimal 150 0)] [],
      Field ''patient_gender'' (TOptional TStr) (Default VNone) [MaxLength 20] [],
      Field ''prescription_date'' (TOptional TDatetime) (Default VNone) [] [],
      Field ''prescription_number'' (TOptional TStr) (Default VNone) [MaxLength 100] [],
      Field ''diagnosis'' (TOptional TStr) (Default VNone) [MaxLength 1000] [],
      Field ''notes'' (TOptional TStr) (Default VNone) [MaxLength 2000] [],
      Field ''image_id'' TInt Required [] [],
      Field ''analysis_session_id'' TInt Required [] [],
      Field ''medications'' (TList (TModel MedicationCreate_fields)) (Default (VList [])) [] [] ]"


section \<open>Validation\<close>

text \<open>
  What a \<^verbatim>\<open>Field\<close> declaration means when a class is validated
  (\<^verbatim>\<open>Model.model_validate(kwargs)\<close>): every field is looked up in the input by its
  name; a missing field takes its default, or is an error when it has none; a
  value that is present is checked against the annotated type and then against
  the constraints, in the order the declaration lists them, stopping at the first
  one it violates. The errors of all fields are collected, each with its location
  (the field's name, then the position inside a list or a nested model), into one
  \<^verbatim>\<open>ValidationError\<close>. Input keys that are no field of the class are ignored.

  A value of the annotated type is taken as it is. Of the conversions that
  validation attempts for a value of another type, the model has those between
  numbers and that of the enumerations: an \<^verbatim>\<open>int\<close> field takes a \<^verbatim>\<open>bool\<close>, and a
  \<^verbatim>\<open>float\<close> or \<^verbatim>\<open>Decimal\<close> that is integral; a \<^verbatim>\<open>Decimal\<close> field takes an \<^verbatim>\<open>int\<close>
  (not a \<^verbatim>\<open>bool\<close>) and a \<^verbatim>\<open>float\<close>, the latter through the decimal that \<^verbatim>\<open>str\<close>
  prints; an enum field takes a string exactly when it is the value of a member.
  The constraints are checked on the converted value. The parsing of strings into
  numbers and datetimes is not part of the model: for such a field a string is
  reported as an error. A string's length is the length of the list of its
  characters.
\<close>

datatype loc_item = Key string | Index nat

datatype error_type =
    Missing
  | WrongType
  | EnumValue
  | StringTooLong
  | GreaterThan
  | GreaterThanEqual
  | LessThanEqual
  | DecimalMaxPlaces
  | IntFromFloat
  | NotUnique

datatype line_error = LineError (loc: "loc_item list") (etype: error_type)

datatype error =
    ValidationError "line_error list"
  | ReferentialError "string list"

definition at_loc :: "loc_item \<Rightarrow> line_error \<Rightarrow> line_error" where
  "at_loc i e = LineError (i # loc e) (etype e)"

fun as_decimal :: "pyval \<Rightarrow> decimal option" where
  "as_decimal (VInt i) = Some (Decimal i 0)"
| "as_decimal (VFloat d) = Some d"
| "as_decimal (VDecimal d) = Some d"
| "as_decimal _ = None"

fun coerce_int :: "pyval \<Rightarrow> error_type + pyval" where
  "coerce_int (VInt i) = Inr (VInt i)"
| "coerce_int (VBool b) = Inr (VInt (if b then 1 else 0))"
| "coerce_int (VFloat d) =
     (if is_integral d then Inr (VInt (int_of_decimal d)) else Inl IntFromFloat)"
| "coerce_int (VDecimal d) =
     (if is_integral d then Inr (VInt (int_of_decimal d)) else Inl IntFromFloat)"
| "coerce_int _ = Inl WrongType"

fun coerce_decimal :: "pyval \<Rightarrow> error_type + pyval" where
  "coerce_decimal (VDecimal d) = Inr (VDecimal d)"
| "coerce_decimal (VInt i) = Inr (VDecimal (Decimal i 0))"
| "coerce_decimal (VFloat d) = Inr (VDecimal d)"
| "coerce_decimal _ = Inl WrongType"

fun check_constraint :: "constraint \<Rightarrow> pyval \<Rightarrow> error_type option" where
  "check_constraint (MaxLength n) v =
     (case v of VStr s \<Rightarrow> if n < length s then Some StringTooLong else None
      | _ \<Rightarrow> None)"
| "check_constraint (Gt b) v =
     (case as_decimal v of Some d \<Rightarrow> if decimal_less b d then None else Some GreaterThan
      | None \<Rightarrow> None)"
| "check_constraint (Ge b) v =
     (case as_decimal v of Some d \<Rightarrow> if decimal_le b d then None else Some GreaterThanEqual
      | None \<Rightarrow> None)"
| "check_constraint (Le b) v =
     (case as_decimal v of Some d \<Rightarrow> if decimal_le d b then None else Some LessThanEqual
      | None \<Rightarrow> None)"
| "check_constraint (DecimalPlaces n) v =
     (case v of
        VDecimal d \<Rightarrow> if n < decimal_places_of d then Some DecimalMaxPlaces else None
      | _ \<Rightarrow> None)"

fun check_constraints :: "constraint list \<Rightarrow> pyval \<Rightarrow> line_error list" where
  "check_constraints [] v = []"
| "check_constraints (c # cs) v =
     (case check_constraint c v of
        Some e \<Rightarrow> [LineError [] e]
      | None \<Rightarrow> check_constraints cs v)"

fun errors_value :: "ftype \<Rightarrow> constraint list \<Rightarrow> pyval \<Rightarrow> line_error list"
and errors_list :: "ftype \<Rightarrow> nat \<Rightarrow> pyval list \<Rightarrow> line_error list"
and errors_fields :: "field list \<Rightarrow> kwargs \<Rightarrow> line_error list"
where
  "errors_value TInt cs v =
     (case coerce_int v of
        Inr v' \<Rightarrow> check_constraints cs v'
      | Inl e \<Rightarrow> [LineError [] e])"
| "errors_value TStr cs v =
     (case v of VStr s \<Rightarrow> check_constraints cs v | _ \<Rightarrow> [LineError [] WrongType])"
| "errors_value TBool cs v =
     (case v of VBool b \<Rightarrow> check_constraints cs v | _ \<Rightarrow> [LineError [] WrongType])"
| "errors_value TDecimal cs v =
     (case coerce_decimal v of
        Inr v' \<Rightarrow> check_constraints cs v'
      | Inl e \<Rightarrow> [LineError [] e])"
| "errors_value TDatetime cs v =
     (case v of VDatetime t \<Rightarrow> check_constraints cs v | _ \<Rightarrow> [LineError [] WrongType])"
| "errors_value TAnalysisStatus cs v =
     (case v of
        VStatus m \<Rightarrow> []
      | VStr s \<Rightarrow>
          (case AnalysisStatus_of_value s of
             Some m \<Rightarrow> []
           | None \<Rightarrow> [LineError [] EnumValue])
      | _ \<Rightarrow> [LineError [] EnumValue])"
| "errors_value TMedicationType cs v =
     (case v of
        VMedType m \<Rightarrow> []
      | VStr s \<Rightarrow>
          (case MedicationType_of_value s of
             Some m \<Rightarrow> []
           | None \<Rightarrow> [LineError [] EnumValue])
      | _ \<Rightarrow> [LineError [] EnumValue])"
| "errors_value TDict cs v =
     (case v of VDict kw \<Rightarrow> [] | _ \<Rightarrow> [LineError [] WrongType])"
| "errors_value (TOptional t) cs v =
     (if v = VNone then [] else errors_value t cs v)"
| "errors_value (TList t) cs v =
     (case v of VList vs \<Rightarrow> errors_list t 0 vs | _ \<Rightarrow> [LineError [] WrongType])"
| "errors_value (TModel fs) cs v =
     (case v of VDict kw \<Rightarrow> errors_fields fs kw | _ \<Rightarrow> [LineError [] WrongType])"
| "errors_list t i [] = []"
| "errors_list t i (v # vs) =
     map (at_loc (Index i)) (errors_value t [] v) @ errors_list t (Suc i) vs"
| "errors_fields [] kw = []"
| "errors_fields (Field name t d cs col # fs) kw =
     (case map_of kw name of
        None \<Rightarrow> (if d = Required then [LineError [Key name] Missing] else [])
      | Some v \<Rightarrow> map (at_loc (Key name)) (errors_value t cs v))
     @ errors_fields fs kw"

text \<open>
  The instance that a valid input builds: the fields in the order of the class,
  each with the input's value as converted (a number of another type by the number
  of the field's type, a string for an enum field by the member it names, a nested
  input by the instance it builds) or with its default.
  \<open>clk k\<close> is what the \<open>k\<close>-th call of \<^verbatim>\<open>datetime.utcnow()\<close> made during the
  construction returns; the counter threaded through says how many calls were
  made so far. Every \<^verbatim>\<open>default_factory\<close> field that the input leaves out makes its
  own call.
\<close>

fun build_value :: "(nat \<Rightarrow> datetime) \<Rightarrow> ftype \<Rightarrow> pyval \<Rightarrow> nat \<Rightarrow> pyval \<times> nat"
and build_list :: "(nat \<Rightarrow> datetime) \<Rightarrow> ftype \<Rightarrow> pyval list \<Rightarrow> nat \<Rightarrow> pyval list \<times> nat"
and build_fields :: "(nat \<Rightarrow> datetime) \<Rightarrow> field list \<Rightarrow> kwargs \<Rightarrow> nat \<Rightarrow> kwargs \<times> nat"
where
  "build_value clk TInt v n =
     (case coerce_int v of Inr v' \<Rightarrow> (v', n) | Inl e \<Rightarrow> (v, n))"
| "build_value clk TStr v n = (v, n)"
| "build_value clk TBool v n = (v, n)"
| "build_value clk TDecimal v n =
     (case coerce_decimal v of Inr v' \<Rightarrow> (v', n) | Inl e \<Rightarrow> (v, n))"
| "build_value clk TDatetime v n = (v, n)"
| "build_value clk TAnalysisStatus v n =
     (case v of
        VStr s \<Rightarrow>
          (case AnalysisStatus_of_value s of Some m \<Rightarrow> (VStatus m, n) | None \<Rightarrow> (v, n))
      | _ \<Rightarrow> (v, n))"
| "build_value clk TMedicationType v n =
     (case v of
        VStr s \<Rightarrow>
          (case MedicationType_of_value s of Some m \<Rightarrow> (VMedType m, n) | None \<Rightarrow> (v, n))
      | _ \<Rightarrow> (v, n))"
| "build_value clk TDict v n = (v, n)"
| "build_value clk (TOptional t) v n =
     (if v = VNone then (VNone, n) else build_value clk t v n)"
| "build_value clk (TList t) v n =
     (case v of
        VList vs \<Rightarrow> (case build_list clk t vs n of (vs', n') \<Rightarrow> (VList vs', n'))
      | _ \<Rightarrow> (v, n))"
| "build_value clk (TModel fs) v n =
     (case v of
        VDict kw \<Rightarrow> (case build_fields clk fs kw n of (kw', n') \<Rightarrow> (VDict kw', n'))
      | _ \<Rightarrow> (v, n))"
| "build_list clk t [] n = ([], n)"
| "build_list clk t (v # vs) n =
     (case build_value clk t v n of
        (v', n1) \<Rightarrow> (case build_list clk t vs n1 of (vs', n2) \<Rightarrow> (v' # vs', n2)))"
| "build_fields clk [] kw n = ([], n)"
| "build_fields clk (Field name t d cs col # fs) kw n =
     (case map_of kw name of
        Some v \<Rightarrow>
          (case build_value clk t v n of
             (v', n1) \<Rightarrow>
               (case build_fields clk fs kw n1 of (rest, n2) \<Rightarrow> ((name, v') # rest, n2)))
      | None \<Rightarrow>
          (case d of
             Default dv \<Rightarrow>
               (case build_fields clk fs kw n of (rest, n2) \<Rightarrow> ((name, dv) # rest, n2))
           | DefaultFactoryUtcnow \<Rightarrow>
               (case build_fields clk fs kw (Suc n) of
                  (rest, n2) \<Rightarrow> ((name, VDatetime (clk n)) # rest, n2))
           | Required \<Rightarrow> build_fields clk fs kw n))"

definition model_validate :: "field list \<Rightarrow> (nat \<Rightarrow> datetime) \<Rightarrow> kwargs \<Rightarrow> error + kwargs" where
  "model_validate fs clk kw =
     (case errors_fields fs kw of
        [] \<Rightarrow> Inr (fst (build_fields clk fs kw 0))
      | e # es \<Rightarrow> Inl (ValidationError (e # es)))"

text \<open>The fields an error names: the heads of the locations of its lines.\<close>

fun names_of :: "error \<Rightarrow> string list" where
  "names_of (ValidationError es) =
     concat (map (\<lambda>e. case loc e of Key k # _ \<Rightarrow> [k] | _ \<Rightarrow> []) es)"
| "names_of (ReferentialError ks) = ks"


text \<open>
  Construction. Each class of models.py says whether it is a table. The constructor
  of a class that is no table validates its input, as above. The constructor of a
  \<^verbatim>\<open>table=True\<close> class runs no validation and raises no error: it takes the values
  of the input as they are, fills the defaults of the fields the input leaves out
  (calling the default factories) and leaves a required field that is missing
  unset.
\<close>

definition User_table :: bool where "User_table = True"

definition PrescriptionImage_table :: bool where "PrescriptionImage_table = True"

definition AnalysisSession_table :: bool where "AnalysisSession_table = True"

definition Prescription_table :: bool where "Prescription_table = True"

definition Medication_table :: bool where "Medication_table = True"

definition UserCreate_table :: bool where "UserCreate_table = False"

definition PrescriptionImageUpload_table :: bool where "PrescriptionImageUpload_table = False"

definition AnalysisSessionCreate_table :: bool where "AnalysisSessionCreate_table = False"

definition MedicationCreate_table :: bool where "MedicationCreate_table = False"

definition PrescriptionCreate_table :: bool where "PrescriptionCreate_table = False"

fun table_construct :: "(nat \<Rightarrow> datetime) \<Rightarrow> field list \<Rightarrow> kwargs \<Rightarrow> nat \<Rightarrow> kwargs" where
  "table_construct clk [] kw n = []"
| "table_construct clk (Field name t d cs col # fs) kw n =
     (case map_of kw name of
        Some v \<Rightarrow> (name, v) # table_construct clk fs kw n
      | None \<Rightarrow>
          (case d of
             Default dv \<Rightarrow> (name, dv) # table_construct clk fs kw n
           | DefaultFactoryUtcnow \<Rightarrow>
               (name, VDatetime (clk n)) # table_construct clk fs kw (Suc n)
           | Required \<Rightarrow> table_construct clk fs kw n))"

definition construct ::
  "bool \<Rightarrow> field list \<Rightarrow> (nat \<Rightarrow> datetime) \<Rightarrow> kwargs \<Rightarrow> error + kwargs" where
  "construct table fs clk kw =
     (if table then Inr (table_construct clk fs kw 0) else model_validate fs clk kw)"

text \<open>
  The errors one field contributes, and two verdicts of a validation:
  \<open>rejects_field\<close> says that it fails with a \<^verbatim>\<open>ValidationError\<close> that names the
  field, \<open>validation_succeeds\<close> that it returns an instance.
\<close>

definition field_errors :: "field \<Rightarrow> kwargs \<Rightarrow> line_error list" where
  "field_errors f kw =
     (case map_of kw (fname f) of
        None \<Rightarrow> (if fdefault f = Required then [LineError [Key (fname f)] Missing] else [])
      | Some v \<Rightarrow> map (at_loc (Key (fname f))) (errors_value (ftyp f) (fconstraints f) v))"

definition rejects_field :: "field list \<Rightarrow> (nat \<Rightarrow> datetime) \<Rightarrow> kwargs \<Rightarrow> string \<Rightarrow> bool" where
  "rejects_field fs clk kw n =
     (case model_validate fs clk kw of
        Inl e \<Rightarrow> (case e of ValidationError es \<Rightarrow> n \<in> set (names_of e) | _ \<Rightarrow> False)
      | Inr inst \<Rightarrow> False)"

definition validation_succeeds :: "field list \<Rightarrow> (nat \<Rightarrow> datetime) \<Rightarrow> kwargs \<Rightarrow> bool" where
  "validation_succeeds fs clk kw =
     (case model_validate fs clk kw of Inl e \<Rightarrow> False | Inr inst \<Rightarrow> True)"


section \<open>The tables and their rows\<close>

text \<open>
  The five \<^verbatim>\<open>table=True\<close> classes, each under its \<^verbatim>\<open>__tablename__\<close>. A row is an
  instance: its attributes by name; \<open>col r c\<close> reads one (\<^verbatim>\<open>None\<close> when the row
  has no such attribute). The columns a declaration marks: the primary keys, the
  columns that admit no duplicate (\<^verbatim>\<open>unique=True\<close>, and a primary key), and the
  foreign keys with the table and column each one points to.
\<close>

definition tables :: "(string \<times> field list) list" where
  "tables =
     [ (User_tablename, User_fields),
       (PrescriptionImage_tablename, PrescriptionImage_fields),
       (AnalysisSession_tablename, AnalysisSession_fields),
       (Prescription_tablename, Prescription_fields),
       (Medication_tablename, Medication_fields) ]"

type_synonym row = kwargs

definition col :: "row \<Rightarrow> string \<Rightarrow> pyval" where
  "col r c = (case map_of r c of Some v \<Rightarrow> v | None \<Rightarrow> VNone)"

definition pk_cols :: "field list \<Rightarrow> string list" where
  "pk_cols fs = map fname (filter (\<lambda>f. PrimaryKey \<in> set (fcolumn f)) fs)"

definition unique_cols :: "field list \<Rightarrow> string list" where
  "unique_cols fs =
     map fname (filter (\<lambda>f. Unique \<in> set (fcolumn f) \<or> PrimaryKey \<in> set (fcolumn f)) fs)"

fun fk_targets :: "column_attr list \<Rightarrow> (string \<times> string) list" where
  "fk_targets [] = []"
| "fk_targets (ForeignKey t c # as) = (t, c) # fk_targets as"
| "fk_targets (a # as) = fk_targets as"

definition foreign_keys :: "field list \<Rightarrow> (string \<times> string \<times> string) list" where
  "foreign_keys fs = concat (map (\<lambda>f. map (\<lambda>tc. (fname f, tc)) (fk_targets (fcolumn f))) fs)"


section \<open>The store\<close>

text \<open>
  Modelled from the spec: the store itself, which models.py does not have. The spec
  speaks of persisted rows per entity; a store holds, under each table name, the
  rows of that table (as a list, a new row at its end).
\<close>

type_synonym store = "string \<Rightarrow> row list"

text \<open>Modelled from the spec: the store before anything is written, every table empty.\<close>

definition empty_store :: store where
  "empty_store = (\<lambda>t. [])"

text \<open>
  Modelled from the spec: a column of a table of the store, the values its rows have
  for one attribute, in the order of the rows.
\<close>

definition column :: "store \<Rightarrow> string \<Rightarrow> string \<Rightarrow> pyval list" where
  "column st t c = map (\<lambda>r. col r c) (st t)"

text \<open>
  Modelled from the spec: the assignment of the server-assigned primary key, missing
  from models.py (which only declares \<^verbatim>\<open>id\<close> as an optional primary key with default
  \<^verbatim>\<open>None\<close>). A row written with no id gets the integer after the largest one in
  the table. \<open>set_col c v r\<close> is the row \<open>r\<close> with \<open>v\<close> for its attribute \<open>c\<close>.
\<close>

definition set_col :: "string \<Rightarrow> pyval \<Rightarrow> row \<Rightarrow> row" where
  "set_col c v r = (c, v) # filter (\<lambda>kv. fst kv \<noteq> c) r"

text \<open>
  Modelled from the spec: the largest integer key in a column of the rows of a
  table, 0 when there is none.
\<close>

fun max_id :: "string \<Rightarrow> row list \<Rightarrow> int" where
  "max_id c [] = 0"
| "max_id c (r # rs) =
     (case col r c of VInt i \<Rightarrow> max i (max_id c rs) | _ \<Rightarrow> max_id c rs)"

text \<open>
  Modelled from the spec: the row as it is written, each primary key that is
  \<^verbatim>\<open>None\<close> replaced by the next integer key of the table.
\<close>

definition assign_ids :: "field list \<Rightarrow> row list \<Rightarrow> row \<Rightarrow> row" where
  "assign_ids fs rows r =
     fold (\<lambda>c r'. if col r' c = VNone then set_col c (VInt (max_id c rows + 1)) r' else r')
          (pk_cols fs) r"

text \<open>
  Modelled from the spec: the referential check of a write, missing from models.py
  (which only declares the foreign keys). The spec: "Every foreign key must
  reference an existing parent row"; "ReferentialError: a foreign key references a
  non-existent parent; surfaced before write". \<open>fk_violations\<close> lists the foreign
  key columns of a row whose value is the key of no row of the parent table.
\<close>

definition fk_violations :: "store \<Rightarrow> field list \<Rightarrow> row \<Rightarrow> string list" where
  "fk_violations st fs r =
     map fst (filter (\<lambda>(k, t, c). col r k \<notin> set (column st t c)) (foreign_keys fs))"

text \<open>
  Modelled from the spec: the uniqueness check of a write, missing from models.py
  (which only declares \<^verbatim>\<open>unique=True\<close> and the primary keys). The spec: "email is
  globally unique across User"; a \<^verbatim>\<open>ValidationError\<close> is raised when "a field
  violates a declared constraint (length, numeric range, required-but-missing,
  uniqueness)". \<open>unique_violations\<close> lists the unique columns of a row whose value
  a row of the table already has.
\<close>

definition unique_violations :: "field list \<Rightarrow> row list \<Rightarrow> row \<Rightarrow> string list" where
  "unique_violations fs rows r =
     filter (\<lambda>c. col r c \<in> set (map (\<lambda>r'. col r' c) rows)) (unique_cols fs)"

text \<open>
  Modelled from the spec: the create operation of the persistence boundary, missing
  from models.py. The spec: "all errors are synchronous rejections of a single
  proposed write". \<open>insert_row t fs r st\<close> writes the instance \<open>r\<close> of the class
  with fields \<open>fs\<close> to table \<open>t\<close>: it assigns the primary key, rejects a row with a
  dangling foreign key (\<^verbatim>\<open>ReferentialError\<close>) or a duplicate of a unique value
  (\<^verbatim>\<open>ValidationError\<close>) and leaves the store as it was, and otherwise appends the
  row to its table and returns it.
\<close>

definition insert_row :: "string \<Rightarrow> field list \<Rightarrow> row \<Rightarrow> store \<Rightarrow> (error + row) \<times> store" where
  "insert_row t fs r st =
     (let r' = assign_ids fs (st t) r in
      case fk_violations st fs r' of
        k # ks \<Rightarrow> (Inl (ReferentialError (k # ks)), st)
      | [] \<Rightarrow>
          (case unique_violations fs (st t) r' of
             k # ks \<Rightarrow> (Inl (ValidationError (map (\<lambda>c. LineError [Key c] NotUnique) (k # ks))), st)
           | [] \<Rightarrow> (Inr r', st(t := st t @ [r']))))"

text \<open>
  Modelled from the spec: the store states that can arise, from the empty store by
  successful creates of rows of the five tables (the spec has no delete).
\<close>

inductive reachable :: "store \<Rightarrow> bool" where
  reachable_empty: "reachable empty_store"
| reachable_insert:
    "reachable st \<Longrightarrow> (t, fs) \<in> set tables \<Longrightarrow> insert_row t fs r st = (Inr r', st')
       \<Longrightarrow> reachable st'"

text \<open>
  Modelled from the spec: what must hold of a store, in the spec's words "email is
  globally unique across User" and "every foreign key must reference an existing
  parent row", for every unique column and every foreign key that models.py
  declares.
\<close>

definition unique_ok :: "field list \<Rightarrow> row list \<Rightarrow> bool" where
  "unique_ok fs rows = list_all (\<lambda>c. distinct (map (\<lambda>r. col r c) rows)) (unique_cols fs)"

text \<open>
  Modelled from the spec: no row of a table has a foreign key that points to no row.
\<close>

definition fk_ok :: "store \<Rightarrow> field list \<Rightarrow> row list \<Rightarrow> bool" where
  "fk_ok st fs rows = list_all (\<lambda>r. fk_violations st fs r = []) rows"

text \<open>
  Modelled from the spec: both conditions, for the five tables of models.py.
\<close>

definition store_ok :: "store \<Rightarrow> bool" where
  "store_ok st = list_all (\<lambda>(t, fs). unique_ok fs (st t) \<and> fk_ok st fs (st t)) tables"

text \<open>
  Modelled from the spec: the store after an attempt to create an entity from an
  input, missing from models.py. The spec: "Violating a constraint must fail
  validation before persistence". The input is validated, and the instance it
  builds is written; when either step fails the store is as it was.
\<close>

definition after_create ::
  "string \<Rightarrow> field list \<Rightarrow> (nat \<Rightarrow> datetime) \<Rightarrow> kwargs \<Rightarrow> store \<Rightarrow> store" where
  "after_create t fs clk kw st =
     (case model_validate fs clk kw of
        Inl e \<Rightarrow> st
      | Inr r \<Rightarrow> snd (insert_row t fs r st))"




section \<open>Names of fields\<close>

text \<open>
  The names a class declares: its fields, and for a table class its attributes
  (fields and relationships). The server-assigned fields of a table class are read
  off the declarations: the primary key (default \<^verbatim>\<open>None\<close>, assigned on write) and
  the timestamps filled by \<^verbatim>\<open>default_factory=datetime.utcnow\<close>.
\<close>

definition field_names :: "field list \<Rightarrow> string list" where
  "field_names fs = map fname fs"

definition attribute_names :: "field list \<Rightarrow> relationship list \<Rightarrow> string list" where
  "attribute_names fs rs = map fname fs @ map rname rs"

definition server_assigned :: "field list \<Rightarrow> string list" where
  "server_assigned fs =
     map fname
       (filter (\<lambda>f. PrimaryKey \<in> set (fcolumn f) \<or> fdefault f = DefaultFactoryUtcnow) fs)"


section \<open>A small store\<close>

text \<open>
  Stores built with the create operation above: a user, an image of hers, an
  analysis session on it, a prescription, and two medications of that prescription,
  created in this order: first the one with \<^verbatim>\<open>order_index\<close> 1, then the one with
  \<^verbatim>\<open>order_index\<close> 0.
\<close>

definition store_1 :: store where
  "store_1 =
     after_create User_tablename User_fields (\<lambda>k. 0)
       [(''name'', VStr ''Jane Doe''), (''email'', VStr ''jane@example.com'')] empty_store"

definition store_2 :: store where
  "store_2 =
     after_create PrescriptionImage_tablename PrescriptionImage_fields (\<lambda>k. 0)
       [(''filename'', VStr ''rx.png''), (''original_filename'', VStr ''scan.png''),
        (''file_path'', VStr ''/data/rx.png''), (''file_size'', VInt 1),
        (''mime_type'', VStr ''image/png''), (''user_id'', VInt 1)] store_1"

definition store_3 :: store where
  "store_3 =
     after_create AnalysisSession_tablename AnalysisSession_fields (\<lambda>k. 0)
       [(''user_id'', VInt 1), (''image_id'', VInt 1)] store_2"

definition store_4 :: store where
  "store_4 =
     after_create Prescription_tablename Prescription_fields (\<lambda>k. 0)
       [(''image_id'', VInt 1), (''analysis_session_id'', VInt 1)] store_3"

definition store_5 :: store where
  "store_5 =
     after_create Medication_tablename Medication_fields (\<lambda>k. 0)
       [(''name'', VStr ''Amoxicillin''), (''order_index'', VInt 1),
        (''prescription_id'', VInt 1)] store_4"

definition store_6 :: store where
  "store_6 =
     after_create Medication_tablename Medication_fields (\<lambda>k. 0)
       [(''name'', VStr ''Ibuprofen''), (''order_index'', VInt 0),
        (''prescription_id'', VInt 1)] store_5"


section \<open>Properties of validation\<close>

lemma errors_fields_Cons: "errors_fields (f # fs) kw = field_errors f kw @ errors_fields fs kw"
  by (cases f) (simp add: field_errors_def split: option.splits)

lemma errors_fields_concat: "errors_fields fs kw = concat (map (\<lambda>f. field_errors f kw) fs)"
  by (induction fs) (simp_all add: errors_fields_Cons)

lemma field_errors_loc:
  "e \<in> set (field_errors f kw) \<Longrightarrow> \<exists>l. loc e = Key (fname f) # l"
  by (auto simp: field_errors_def at_loc_def split: option.splits if_splits)

lemma names_of_field_errors:
  "set (names_of (ValidationError (field_errors f kw))) =
     (if field_errors f kw = [] then {} else {fname f})"
proof (cases "field_errors f kw = []")
  case True
  then show ?thesis by simp
next
  case False
  then obtain e where e: "e \<in> set (field_errors f kw)"
    by (cases "field_errors f kw") auto
  have "\<And>x. x \<in> set (field_errors f kw) \<Longrightarrow>
          (case loc x of Key k # _ \<Rightarrow> [k] | _ \<Rightarrow> []) = [fname f]"
    using field_errors_loc by fastforce
  with e False show ?thesis by auto
qed

lemma names_of_append:
  "set (names_of (ValidationError (xs @ ys))) =
     set (names_of (ValidationError xs)) \<union> set (names_of (ValidationError ys))"
  by simp

lemma names_of_errors_fields:
  "set (names_of (ValidationError (errors_fields fs kw))) =
     fname ` {f \<in> set fs. field_errors f kw \<noteq> []}"
proof (induction fs)
  case Nil
  then show ?case by simp
next
  case (Cons f fs)
  have "set (names_of (ValidationError (errors_fields (f # fs) kw))) =
          set (names_of (ValidationError (field_errors f kw))) \<union>
          set (names_of (ValidationError (errors_fields fs kw)))"
    unfolding errors_fields_Cons by (rule names_of_append)
  also have "\<dots> = (if field_errors f kw = [] then {} else {fname f}) \<union>
                    fname ` {g \<in> set fs. field_errors g kw \<noteq> []}"
    by (simp only: names_of_field_errors Cons.IH)
  also have "\<dots> = fname ` {g \<in> set (f # fs). field_errors g kw \<noteq> []}"
    by auto
  finally show ?case .
qed

lemma errors_fields_Nil_iff:
  "errors_fields fs kw = [] \<longleftrightarrow> (\<forall>f \<in> set fs. field_errors f kw = [])"
  by (simp add: errors_fields_concat)

lemma model_validate_Inl:
  "model_validate fs clk kw = Inl e \<longleftrightarrow>
     errors_fields fs kw \<noteq> [] \<and> e = ValidationError (errors_fields fs kw)"
  by (auto simp: model_validate_def split: list.splits)


lemma validation_succeeds_iff:
  "validation_succeeds fs clk kw \<longleftrightarrow> (\<forall>f \<in> set fs. field_errors f kw = [])"
  by (simp add: validation_succeeds_def model_validate_def errors_fields_Nil_iff [symmetric]
      split: list.splits)

text \<open>
  A validation names a field exactly when the one declaration of that name in the
  class contributes an error.
\<close>

lemma rejects_field_iff:
  assumes "filter (\<lambda>f. fname f = n) fs = [f]"
  shows "rejects_field fs clk kw n \<longleftrightarrow> field_errors f kw \<noteq> []"
proof -
  have mem: "\<And>g. g \<in> set fs \<and> fname g = n \<longleftrightarrow> g = f"
  proof -
    fix g
    have "g \<in> set (filter (\<lambda>f. fname f = n) fs) \<longleftrightarrow> g \<in> set [f]"
      by (simp only: assms)
    then show "g \<in> set fs \<and> fname g = n \<longleftrightarrow> g = f" by auto
  qed
  have "rejects_field fs clk kw n \<longleftrightarrow>
          n \<in> set (names_of (ValidationError (errors_fields fs kw)))"
  proof (cases "errors_fields fs kw")
    case Nil
    then show ?thesis by (simp add: rejects_field_def model_validate_def)
  next
    case (Cons e es)
    then show ?thesis by (simp add: rejects_field_def model_validate_def)
  qed
  also have "\<dots> \<longleftrightarrow> (\<exists>g. (g \<in> set fs \<and> fname g = n) \<and> field_errors g kw \<noteq> [])"
    unfolding names_of_errors_fields by auto
  also have "\<dots> \<longleftrightarrow> field_errors f kw \<noteq> []"
    by (simp only: mem) simp
  finally show ?thesis .
qed

text \<open>
  A validation succeeds exactly when the declaration of one name contributes no
  error and no other field does.
\<close>

lemma validation_succeeds_split:
  assumes "filter (\<lambda>f. fname f = n) fs = [f]"
  shows "validation_succeeds fs clk kw \<longleftrightarrow>
           field_errors f kw = [] \<and>
           (\<forall>g \<in> set fs. fname g \<noteq> n \<longrightarrow> field_errors g kw = [])"
proof -
  have mem: "\<And>g. g \<in> set fs \<and> fname g = n \<longleftrightarrow> g = f"
  proof -
    fix g
    have "g \<in> set (filter (\<lambda>f. fname f = n) fs) \<longleftrightarrow> g \<in> set [f]"
      by (simp only: assms)
    then show "g \<in> set fs \<and> fname g = n \<longleftrightarrow> g = f" by auto
  qed
  have f_in: "f \<in> set fs" and f_name: "fname f = n"
    using mem [of f] by simp_all
  have only: "\<And>g. g \<in> set fs \<Longrightarrow> fname g = n \<Longrightarrow> g = f"
    using mem by blast
  show ?thesis
    unfolding validation_succeeds_iff
  proof
    assume "\<forall>g \<in> set fs. field_errors g kw = []"
    with f_in show "field_errors f kw = [] \<and>
        (\<forall>g \<in> set fs. fname g \<noteq> n \<longrightarrow> field_errors g kw = [])"
      by simp
  next
    assume a: "field_errors f kw = [] \<and>
        (\<forall>g \<in> set fs. fname g \<noteq> n \<longrightarrow> field_errors g kw = [])"
    show "\<forall>g \<in> set fs. field_errors g kw = []"
    proof
      fix g assume g: "g \<in> set fs"
      show "field_errors g kw = []"
      proof (cases "fname g = n")
        case True
        with only [OF g] a show ?thesis by simp
      next
        case False
        with a g show ?thesis by simp
      qed
    qed
  qed
qed




section \<open>The enumerations\<close>

lemma AnalysisStatus_of_value_iff:
  "AnalysisStatus_of_value s = Some a \<longleftrightarrow> AnalysisStatus_value a = s"
  by (cases a) (auto simp: AnalysisStatus_of_value_def AnalysisStatus_members_def)

lemma MedicationType_of_value_iff:
  "MedicationType_of_value s = Some m \<longleftrightarrow> MedicationType_value m = s"
  by (cases m) (auto simp: MedicationType_of_value_def MedicationType_members_def)

lemma AnalysisStatus_members_all: "set AnalysisStatus_members = UNIV"
proof -
  have "a \<in> set AnalysisStatus_members" for a
    by (cases a) (simp_all add: AnalysisStatus_members_def)
  then show ?thesis by blast
qed

lemma MedicationType_members_all: "set MedicationType_members = UNIV"
proof -
  have "m \<in> set MedicationType_members" for m
    by (cases m) (simp_all add: MedicationType_members_def)
  then show ?thesis by blast
qed

lemma AnalysisStatus_values:
  "set (map AnalysisStatus_value AnalysisStatus_members) =
     {''pending'', ''processing'', ''completed'', ''failed''}"
  by (simp add: AnalysisStatus_members_def)

lemma MedicationType_values:
  "set (map MedicationType_value MedicationType_members) =
     {''tablet'', ''capsule'', ''syrup'', ''injection'', ''drops'', ''cream'',
      ''ointment'', ''other''}"
  by (simp add: MedicationType_members_def)

lemma AnalysisStatus_of_value_None:
  "AnalysisStatus_of_value s = None \<longleftrightarrow>
     s \<notin> {''pending'', ''processing'', ''completed'', ''failed''}"
  by (simp add: AnalysisStatus_of_value_def AnalysisStatus_members_def)

lemma MedicationType_of_value_None:
  "MedicationType_of_value s = None \<longleftrightarrow>
     s \<notin> {''tablet'', ''capsule'', ''syrup'', ''injection'', ''drops'', ''cream'',
           ''ointment'', ''other''}"
  by (simp add: MedicationType_of_value_def MedicationType_members_def)

lemma AnalysisSession_status:
  "filter (\<lambda>f. fname f = ''status'') AnalysisSession_fields =
     [Field ''status'' TAnalysisStatus (Default (VStatus PENDING)) [] []]"
  by (simp add: AnalysisSession_fields_def)

lemma Medication_medication_type:
  "filter (\<lambda>f. fname f = ''medication_type'') Medication_fields =
     [Field ''medication_type'' (TOptional TMedicationType) (Default VNone) [] []]"
  by (simp add: Medication_fields_def)

lemma MedicationCreate_medication_type:
  "filter (\<lambda>f. fname f = ''medication_type'') MedicationCreate_fields =
     [Field ''medication_type'' (TOptional TMedicationType) (Default VNone) [] []]"
  by (simp add: MedicationCreate_fields_def)

lemma status_field_errors:
  assumes "map_of kw ''status'' = Some (VStr s)"
  shows "field_errors (Field ''status'' TAnalysisStatus (Default (VStatus PENDING)) [] []) kw \<noteq> []
           \<longleftrightarrow> AnalysisStatus_of_value s = None"
  using assms by (simp add: field_errors_def split: option.splits)

lemma medication_type_field_errors:
  assumes "map_of kw ''medication_type'' = Some (VStr s)"
  shows "field_errors (Field ''medication_type'' (TOptional TMedicationType) (Default VNone) [] []) kw
           \<noteq> [] \<longleftrightarrow> MedicationType_of_value s = None"
  using assms by (simp add: field_errors_def split: option.splits)

text \<open>
  Claim C6. The members of \<^verbatim>\<open>AnalysisStatus\<close> have exactly the string values
  pending, processing, completed and failed, those of \<^verbatim>\<open>MedicationType\<close> exactly
  tablet, capsule, syrup, injection, drops, cream, ointment and other. Looking a
  string up gives a member only when the string is that member's value; any other
  string gives no member, is an error for a value of the enum type, and, supplied
  for \<^verbatim>\<open>AnalysisSession.status\<close> or for \<^verbatim>\<open>medication_type\<close> of \<^verbatim>\<open>Medication\<close> and
  \<^verbatim>\<open>MedicationCreate\<close>, makes the validation fail with an error naming that field.
\<close>

theorem enum_wire_values:
  "set (map AnalysisStatus_value AnalysisStatus_members) =
     {''pending'', ''processing'', ''completed'', ''failed''}
   \<and> set AnalysisStatus_members = UNIV
   \<and> set (map MedicationType_value MedicationType_members) =
     {''tablet'', ''capsule'', ''syrup'', ''injection'', ''drops'', ''cream'',
      ''ointment'', ''other''}
   \<and> set MedicationType_members = UNIV
   \<and> (AnalysisStatus_of_value s = Some a \<longleftrightarrow> AnalysisStatus_value a = s)
   \<and> (MedicationType_of_value s = Some m \<longleftrightarrow> MedicationType_value m = s)
   \<and> (s \<notin> {''pending'', ''processing'', ''completed'', ''failed''} \<longrightarrow>
        AnalysisStatus_of_value s = None
        \<and> errors_value TAnalysisStatus cs (VStr s) = [LineError [] EnumValue])
   \<and> (s \<notin> {''tablet'', ''capsule'', ''syrup'', ''injection'', ''drops'', ''cream'',
             ''ointment'', ''other''} \<longrightarrow>
        MedicationType_of_value s = None
        \<and> errors_value TMedicationType cs (VStr s) = [LineError [] EnumValue])
   \<and> (map_of kw ''status'' = Some (VStr s) \<longrightarrow>
        (rejects_field AnalysisSession_fields clk kw ''status'' \<longleftrightarrow>
           s \<notin> {''pending'', ''processing'', ''completed'', ''failed''}))
   \<and> (map_of kw ''medication_type'' = Some (VStr s) \<longrightarrow>
        (rejects_field Medication_fields clk kw ''medication_type'' \<longleftrightarrow>
           s \<notin> {''tablet'', ''capsule'', ''syrup'', ''injection'', ''drops'', ''cream'',
                 ''ointment'', ''other''})
        \<and> (rejects_field MedicationCreate_fields clk kw ''medication_type'' \<longleftrightarrow>
           s \<notin> {''tablet'', ''capsule'', ''syrup'', ''injection'', ''drops'', ''cream'',
                 ''ointment'', ''other''}))"
proof -
  have a: "s \<notin> {''pending'', ''processing'', ''completed'', ''failed''} \<longrightarrow>
        AnalysisStatus_of_value s = None
        \<and> errors_value TAnalysisStatus cs (VStr s) = [LineError [] EnumValue]"
    using AnalysisStatus_of_value_None [of s] by auto
  have b: "s \<notin> {''tablet'', ''capsule'', ''syrup'', ''injection'', ''drops'', ''cream'',
             ''ointment'', ''other''} \<longrightarrow>
        MedicationType_of_value s = None
        \<and> errors_value TMedicationType cs (VStr s) = [LineError [] EnumValue]"
    using MedicationType_of_value_None [of s] by auto
  have c: "map_of kw ''status'' = Some (VStr s) \<longrightarrow>
        (rejects_field AnalysisSession_fields clk kw ''status'' \<longleftrightarrow>
           s \<notin> {''pending'', ''processing'', ''completed'', ''failed''})"
  proof
    assume h: "map_of kw ''status'' = Some (VStr s)"
    show "rejects_field AnalysisSession_fields clk kw ''status'' \<longleftrightarrow>
           s \<notin> {''pending'', ''processing'', ''completed'', ''failed''}"
      by (simp only: rejects_field_iff [OF AnalysisSession_status] status_field_errors [OF h]
          AnalysisStatus_of_value_None)
  qed
  have d: "map_of kw ''medication_type'' = Some (VStr s) \<longrightarrow>
        (rejects_field Medication_fields clk kw ''medication_type'' \<longleftrightarrow>
           s \<notin> {''tablet'', ''capsule'', ''syrup'', ''injection'', ''drops'', ''cream'',
                 ''ointment'', ''other''})
        \<and> (rejects_field MedicationCreate_fields clk kw ''medication_type'' \<longleftrightarrow>
           s \<notin> {''tablet'', ''capsule'', ''syrup'', ''injection'', ''drops'', ''cream'',
                 ''ointment'', ''other''})"
  proof
    assume h: "map_of kw ''medication_type'' = Some (VStr s)"
    show "(rejects_field Medication_fields clk kw ''medication_type'' \<longleftrightarrow>
           s \<notin> {''tablet'', ''capsule'', ''syrup'', ''injection'', ''drops'', ''cream'',
                 ''ointment'', ''other''})
        \<and> (rejects_field MedicationCreate_fields clk kw ''medication_type'' \<longleftrightarrow>
           s \<notin> {''tablet'', ''capsule'', ''syrup'', ''injection'', ''drops'', ''cream'',
                 ''ointment'', ''other''})"
      by (simp only: rejects_field_iff [OF Medication_medication_type]
          rejects_field_iff [OF MedicationCreate_medication_type]
          medication_type_field_errors [OF h] MedicationType_of_value_None)
  qed
  show ?thesis
    using a b c d AnalysisStatus_values MedicationType_values AnalysisStatus_members_all
      MedicationType_members_all AnalysisStatus_of_value_iff [of s a]
      MedicationType_of_value_iff [of s m]
    by blast
qed

theorem enum_wire_values_witness:
  "AnalysisStatus_of_value ''done'' = None
   \<and> errors_value TAnalysisStatus [] (VStr ''done'') = [LineError [] EnumValue]
   \<and> MedicationType_of_value ''pill'' = None
   \<and> errors_value TMedicationType [] (VStr ''pill'') = [LineError [] EnumValue]
   \<and> rejects_field AnalysisSession_fields (\<lambda>k. 0) [(''status'', VStr ''done'')] ''status''
   \<and> rejects_field Medication_fields (\<lambda>k. 0)
        [(''medication_type'', VStr ''pill'')] ''medication_type''
   \<and> rejects_field MedicationCreate_fields (\<lambda>k. 0)
        [(''medication_type'', VStr ''pill'')] ''medication_type''"
  using enum_wire_values [of "''done''" PENDING TABLET "[]"
      "[(''status'', VStr ''done'')]" "\<lambda>k. 0"]
    enum_wire_values [of "''pill''" PENDING TABLET "[]"
      "[(''medication_type'', VStr ''pill'')]" "\<lambda>k. 0"]
  by simp

section \<open>Numeric ranges\<close>

text \<open>The declarations that the range claims are about, as the classes list them.\<close>

lemma AnalysisSession_confidence_score:
  "filter (\<lambda>f. fname f = ''confidence_score'') AnalysisSession_fields =
     [Field ''confidence_score'' (TOptional TDecimal) (Default VNone)
        [DecimalPlaces 3, Ge (Decimal 0 1), Le (Decimal 10 1)] []]"
  by (simp add: AnalysisSession_fields_def)

lemma Medication_confidence_score:
  "filter (\<lambda>f. fname f = ''confidence_score'') Medication_fields =
     [Field ''confidence_score'' (TOptional TDecimal) (Default VNone)
        [DecimalPlaces 3, Ge (Decimal 0 1), Le (Decimal 10 1)] []]"
  by (simp add: Medication_fields_def)

lemma MedicationCreate_confidence_score:
  "filter (\<lambda>f. fname f = ''confidence_score'') MedicationCreate_fields =
     [Field ''confidence_score'' (TOptional TDecimal) (Default VNone)
        [DecimalPlaces 3, Ge (Decimal 0 1), Le (Decimal 10 1)] []]"
  by (simp add: MedicationCreate_fields_def)

lemma norm_places_zero: "norm_places 0 p = 0"
  by (induction p) simp_all

lemma norm_places_power: "norm_places (10 ^ p) p = 0"
  by (induction p) simp_all

lemma decimal_eq_zero_places:
  assumes "decimal_eq d (Decimal 0 1)"
  shows "decimal_places_of d = 0"
proof -
  obtain c p where d: "d = Decimal c p" by (cases d)
  from assms d have "c = 0" by (simp add: decimal_eq_def)
  then show ?thesis by (simp add: d decimal_places_of_def norm_places_zero)
qed

lemma decimal_eq_one_places:
  assumes "decimal_eq d (Decimal 10 1)"
  shows "decimal_places_of d = 0"
proof -
  obtain c p where d: "d = Decimal c p" by (cases d)
  from assms d have "c * 10 = 10 * 10 ^ p" by (simp add: decimal_eq_def)
  then have "c = 10 ^ p" by simp
  then show ?thesis by (simp add: d decimal_places_of_def norm_places_power)
qed

lemma decimal_eq_range:
  "decimal_eq d (Decimal 0 1) \<or> decimal_eq d (Decimal 10 1) \<Longrightarrow>
     \<not> decimal_less d (Decimal 0 1) \<and> \<not> decimal_less (Decimal 10 1) d"
  by (cases d) (auto simp: decimal_eq_def)

lemma confidence_score_field_errors:
  assumes "map_of kw ''confidence_score'' = Some v" and "as_decimal v = Some d"
  shows "field_errors (Field ''confidence_score'' (TOptional TDecimal) (Default VNone)
           [DecimalPlaces 3, Ge (Decimal 0 1), Le (Decimal 10 1)] []) kw \<noteq> [] \<longleftrightarrow>
         3 < decimal_places_of d \<or> decimal_less d (Decimal 0 1) \<or> decimal_less (Decimal 10 1) d"
proof -
  have c: "coerce_decimal v = Inr (VDecimal d)" and n: "v \<noteq> VNone"
    using assms(2) by (cases v; simp)+
  show ?thesis
    using assms(1) c n by (cases d) (auto simp: field_errors_def)
qed

lemma confidence_score_rejected_iff:
  assumes "fs = AnalysisSession_fields \<or> fs = Medication_fields \<or> fs = MedicationCreate_fields"
    and "map_of kw ''confidence_score'' = Some v" and "as_decimal v = Some d"
  shows "rejects_field fs clk kw ''confidence_score'' \<longleftrightarrow>
         3 < decimal_places_of d \<or> decimal_less d (Decimal 0 1) \<or> decimal_less (Decimal 10 1) d"
  using assms(1)
    rejects_field_iff [OF AnalysisSession_confidence_score, of clk kw]
    rejects_field_iff [OF Medication_confidence_score, of clk kw]
    rejects_field_iff [OF MedicationCreate_confidence_score, of clk kw]
    confidence_score_field_errors [OF assms(2,3)]
  by auto

lemma confidence_score_succeeds_iff:
  assumes "fs = AnalysisSession_fields \<or> fs = Medication_fields \<or> fs = MedicationCreate_fields"
    and "map_of kw ''confidence_score'' = Some v" and "as_decimal v = Some d"
  shows "validation_succeeds fs clk kw \<longleftrightarrow>
         \<not> (3 < decimal_places_of d \<or> decimal_less d (Decimal 0 1)
              \<or> decimal_less (Decimal 10 1) d)
         \<and> (\<forall>g \<in> set fs. fname g \<noteq> ''confidence_score'' \<longrightarrow> field_errors g kw = [])"
  using assms(1)
    validation_succeeds_split [OF AnalysisSession_confidence_score, of clk kw]
    validation_succeeds_split [OF Medication_confidence_score, of clk kw]
    validation_succeeds_split [OF MedicationCreate_confidence_score, of clk kw]
    confidence_score_field_errors [OF assms(2,3)]
  by auto

text \<open>
  Claim C1, as amended. With a number \<open>v\<close> for \<^verbatim>\<open>confidence_score\<close> in the input (a
  \<^verbatim>\<open>Decimal\<close>, an \<^verbatim>\<open>int\<close> or a \<^verbatim>\<open>float\<close>, of value \<open>d\<close>), the validation of
  \<^verbatim>\<open>AnalysisSession\<close>, \<^verbatim>\<open>Medication\<close> and \<^verbatim>\<open>MedicationCreate\<close> fails with a
  \<^verbatim>\<open>ValidationError\<close> naming \<^verbatim>\<open>confidence_score\<close> when \<open>d\<close> is strictly below 0.0 or
  strictly above 1.0; when \<open>d\<close> equals 0.0 or 1.0, however it is written, no error
  names the field and the validation succeeds exactly when every other field is
  accepted. The constructor of \<^verbatim>\<open>MedicationCreate\<close> is this validation. The
  constructors of the table classes \<^verbatim>\<open>AnalysisSession\<close> and \<^verbatim>\<open>Medication\<close> validate
  nothing: they return an instance, whatever the value.
\<close>

theorem confidence_score_range:
  assumes "fs = AnalysisSession_fields \<or> fs = Medication_fields \<or> fs = MedicationCreate_fields"
    and "map_of kw ''confidence_score'' = Some v" and "as_decimal v = Some d"
  shows "(decimal_less d (Decimal 0 1) \<or> decimal_less (Decimal 10 1) d \<longrightarrow>
            rejects_field fs clk kw ''confidence_score'' \<and> \<not> validation_succeeds fs clk kw)
       \<and> (decimal_eq d (Decimal 0 1) \<or> decimal_eq d (Decimal 10 1) \<longrightarrow>
            \<not> rejects_field fs clk kw ''confidence_score''
            \<and> (validation_succeeds fs clk kw \<longleftrightarrow>
                 (\<forall>g \<in> set fs. fname g \<noteq> ''confidence_score'' \<longrightarrow> field_errors g kw = [])))
       \<and> construct MedicationCreate_table MedicationCreate_fields clk kw =
            model_validate MedicationCreate_fields clk kw
       \<and> \<not> isl (construct AnalysisSession_table AnalysisSession_fields clk kw)
       \<and> \<not> isl (construct Medication_table Medication_fields clk kw)"
proof -
  have places: "decimal_eq d (Decimal 0 1) \<or> decimal_eq d (Decimal 10 1) \<Longrightarrow>
      decimal_places_of d = 0"
    using decimal_eq_zero_places decimal_eq_one_places by blast
  have ctor: "construct MedicationCreate_table MedicationCreate_fields clk kw =
            model_validate MedicationCreate_fields clk kw"
    "\<not> isl (construct AnalysisSession_table AnalysisSession_fields clk kw)"
    "\<not> isl (construct Medication_table Medication_fields clk kw)"
    by (simp_all add: construct_def MedicationCreate_table_def AnalysisSession_table_def
        Medication_table_def)
  show ?thesis
    using confidence_score_rejected_iff [OF assms, of clk]
      confidence_score_succeeds_iff [OF assms, of clk]
      places decimal_eq_range [of d] ctor
    by auto
qed

text \<open>
  The claim as it was stated, for every construction, fails on the table classes:
  a \<^verbatim>\<open>Medication\<close> is constructed with \<^verbatim>\<open>confidence_score\<close> 1.5 and an
  \<^verbatim>\<open>AnalysisSession\<close> with -0.1, and no error is raised.
\<close>

theorem confidence_score_range_counterexample:
  "decimal_less (Decimal 10 1) (Decimal 15 1)
   \<and> \<not> isl (construct Medication_table Medication_fields (\<lambda>k. 0)
       [(''name'', VStr ''Amoxicillin''), (''prescription_id'', VInt 1),
        (''confidence_score'', VDecimal (Decimal 15 1))])
   \<and> decimal_less (Decimal (- 1) 1) (Decimal 0 1)
   \<and> \<not> isl (construct AnalysisSession_table AnalysisSession_fields (\<lambda>k. 0)
       [(''user_id'', VInt 1), (''image_id'', VInt 1),
        (''confidence_score'', VFloat (Decimal (- 1) 1))])"
  by (simp add: construct_def Medication_table_def AnalysisSession_table_def)

theorem confidence_score_range_witness:
  "rejects_field Medication_fields (\<lambda>k. 0)
     [(''name'', VStr ''Amoxicillin''), (''prescription_id'', VInt 1),
      (''confidence_score'', VFloat (Decimal 15 1))] ''confidence_score''
   \<and> rejects_field AnalysisSession_fields (\<lambda>k. 0)
     [(''user_id'', VInt 1), (''image_id'', VInt 1),
      (''confidence_score'', VDecimal (Decimal (- 1) 1))] ''confidence_score''
   \<and> rejects_field MedicationCreate_fields (\<lambda>k. 0)
     [(''name'', VStr ''Amoxicillin''), (''confidence_score'', VInt 2)] ''confidence_score''
   \<and> validation_succeeds MedicationCreate_fields (\<lambda>k. 0)
     [(''name'', VStr ''Amoxicillin''), (''confidence_score'', VFloat (Decimal 0 1))]
   \<and> validation_succeeds MedicationCreate_fields (\<lambda>k. 0)
     [(''name'', VStr ''Amoxicillin''), (''confidence_score'', VInt 1)]
   \<and> validation_succeeds Medication_fields (\<lambda>k. 0)
     [(''name'', VStr ''Amoxicillin''), (''prescription_id'', VInt 1),
      (''confidence_score'', VDecimal (Decimal 10000 4))]"
  using
    confidence_score_range [of Medication_fields
      "[(''name'', VStr ''Amoxicillin''), (''prescription_id'', VInt 1),
        (''confidence_score'', VFloat (Decimal 15 1))]" "VFloat (Decimal 15 1)" "Decimal 15 1"
      "\<lambda>k. 0"]
    confidence_score_range [of AnalysisSession_fields
      "[(''user_id'', VInt 1), (''image_id'', VInt 1),
        (''confidence_score'', VDecimal (Decimal (- 1) 1))]" "VDecimal (Decimal (- 1) 1)"
      "Decimal (- 1) 1" "\<lambda>k. 0"]
    confidence_score_range [of MedicationCreate_fields
      "[(''name'', VStr ''Amoxicillin''), (''confidence_score'', VInt 2)]" "VInt 2"
      "Decimal 2 0" "\<lambda>k. 0"]
    confidence_score_range [of MedicationCreate_fields
      "[(''name'', VStr ''Amoxicillin''), (''confidence_score'', VFloat (Decimal 0 1))]"
      "VFloat (Decimal 0 1)" "Decimal 0 1" "\<lambda>k. 0"]
    confidence_score_range [of MedicationCreate_fields
      "[(''name'', VStr ''Amoxicillin''), (''confidence_score'', VInt 1)]" "VInt 1"
      "Decimal 1 0" "\<lambda>k. 0"]
    confidence_score_range [of Medication_fields
      "[(''name'', VStr ''Amoxicillin''), (''prescription_id'', VInt 1),
        (''confidence_score'', VDecimal (Decimal 10000 4))]" "VDecimal (Decimal 10000 4)"
      "Decimal 10000 4" "\<lambda>k. 0"]
  by (simp add: Medication_fields_def MedicationCreate_fields_def field_errors_def
      decimal_eq_def)

lemma PrescriptionImage_file_size:
  "filter (\<lambda>f. fname f = ''file_size'') PrescriptionImage_fields =
     [Field ''file_size'' TInt Required [Gt (Decimal 0 0)] []]"
  by (simp add: PrescriptionImage_fields_def)

lemma PrescriptionImageUpload_file_size:
  "filter (\<lambda>f. fname f = ''file_size'') PrescriptionImageUpload_fields =
     [Field ''file_size'' TInt Required [Gt (Decimal 0 0)] []]"
  by (simp add: PrescriptionImageUpload_fields_def)

lemma file_size_field_errors:
  assumes "map_of kw ''file_size'' = Some (VInt n)"
  shows "field_errors (Field ''file_size'' TInt Required [Gt (Decimal 0 0)] []) kw \<noteq> []
           \<longleftrightarrow> n \<le> 0"
  using assms by (auto simp: field_errors_def)

text \<open>
  Claim C5. For \<^verbatim>\<open>PrescriptionImage\<close> and \<^verbatim>\<open>PrescriptionImageUpload\<close>, with an
  integer \<^verbatim>\<open>file_size\<close> \<open>n\<close> in the input: the validation fails with an error naming
  \<^verbatim>\<open>file_size\<close> exactly when \<open>n\<close> is zero or negative; with \<open>n = 1\<close> (and any
  positive \<open>n\<close>) it succeeds exactly when every other field is accepted.
\<close>

theorem file_size_positive:
  assumes "fs = PrescriptionImage_fields \<or> fs = PrescriptionImageUpload_fields"
    and "map_of kw ''file_size'' = Some (VInt n)"
  shows "(rejects_field fs clk kw ''file_size'' \<longleftrightarrow> n \<le> 0)
       \<and> (n \<le> 0 \<longrightarrow> \<not> validation_succeeds fs clk kw)
       \<and> (n = 1 \<or> 0 < n \<longrightarrow>
            (validation_succeeds fs clk kw \<longleftrightarrow>
               (\<forall>g \<in> set fs. fname g \<noteq> ''file_size'' \<longrightarrow> field_errors g kw = [])))"
  using assms(1)
    rejects_field_iff [OF PrescriptionImage_file_size, of clk kw]
    rejects_field_iff [OF PrescriptionImageUpload_file_size, of clk kw]
    validation_succeeds_split [OF PrescriptionImage_file_size, of clk kw]
    validation_succeeds_split [OF PrescriptionImageUpload_file_size, of clk kw]
    file_size_field_errors [OF assms(2)]
  by auto

theorem file_size_positive_witness:
  "rejects_field PrescriptionImage_fields (\<lambda>k. 0) [(''file_size'', VInt 0)] ''file_size''
   \<and> rejects_field PrescriptionImageUpload_fields (\<lambda>k. 0)
       [(''file_size'', VInt (- 5))] ''file_size''
   \<and> validation_succeeds PrescriptionImageUpload_fields (\<lambda>k. 0)
       [(''filename'', VStr ''rx.png''), (''file_size'', VInt 1),
        (''mime_type'', VStr ''image/png'')]
   \<and> validation_succeeds PrescriptionImage_fields (\<lambda>k. 0)
       [(''filename'', VStr ''rx.png''), (''original_filename'', VStr ''scan.png''),
        (''file_path'', VStr ''/data/rx.png''), (''file_size'', VInt 1),
        (''mime_type'', VStr ''image/png''), (''user_id'', VInt 1)]"
  using
    file_size_positive [of PrescriptionImage_fields "[(''file_size'', VInt 0)]" 0 "\<lambda>k. 0"]
    file_size_positive [of PrescriptionImageUpload_fields "[(''file_size'', VInt (- 5))]" "- 5"
      "\<lambda>k. 0"]
    file_size_positive [of PrescriptionImageUpload_fields
      "[(''filename'', VStr ''rx.png''), (''file_size'', VInt 1),
        (''mime_type'', VStr ''image/png'')]" 1 "\<lambda>k. 0"]
    file_size_positive [of PrescriptionImage_fields
      "[(''filename'', VStr ''rx.png''), (''original_filename'', VStr ''scan.png''),
        (''file_path'', VStr ''/data/rx.png''), (''file_size'', VInt 1),
        (''mime_type'', VStr ''image/png''), (''user_id'', VInt 1)]" 1 "\<lambda>k. 0"]
  by (simp add: PrescriptionImage_fields_def PrescriptionImageUpload_fields_def field_errors_def)

lemma Prescription_patient_age:
  "filter (\<lambda>f. fname f = ''patient_age'') Prescription_fields =
     [Field ''patient_age'' (TOptional TInt) (Default VNone)
        [Ge (Decimal 0 0), Le (Decimal 150 0)] []]"
  by (simp add: Prescription_fields_def)

lemma PrescriptionCreate_patient_age:
  "filter (\<lambda>f. fname f = ''patient_age'') PrescriptionCreate_fields =
     [Field ''patient_age'' (TOptional TInt) (Default VNone)
        [Ge (Decimal 0 0), Le (Decimal 150 0)] []]"
  by (simp add: PrescriptionCreate_fields_def)

lemma patient_age_field_errors:
  assumes "map_of kw ''patient_age'' = Some (VInt a)"
  shows "field_errors (Field ''patient_age'' (TOptional TInt) (Default VNone)
           [Ge (Decimal 0 0), Le (Decimal 150 0)] []) kw \<noteq> [] \<longleftrightarrow> a < 0 \<or> 150 < a"
  using assms by (auto simp: field_errors_def)

text \<open>
  Claim C9. For \<^verbatim>\<open>Prescription\<close> and \<^verbatim>\<open>PrescriptionCreate\<close>, with an integer
  \<^verbatim>\<open>patient_age\<close> \<open>a\<close> in the input: the validation fails with an error naming
  \<^verbatim>\<open>patient_age\<close> exactly when \<open>a\<close> is negative or at least 151; when
  \<open>0 \<le> a \<le> 150\<close> it succeeds exactly when every other field is accepted.
\<close>

theorem patient_age_range:
  assumes "fs = Prescription_fields \<or> fs = PrescriptionCreate_fields"
    and "map_of kw ''patient_age'' = Some (VInt a)"
  shows "(rejects_field fs clk kw ''patient_age'' \<longleftrightarrow> a < 0 \<or> 151 \<le> a)
       \<and> (a < 0 \<or> 151 \<le> a \<longrightarrow> \<not> validation_succeeds fs clk kw)
       \<and> (0 \<le> a \<and> a \<le> 150 \<longrightarrow>
            (validation_succeeds fs clk kw \<longleftrightarrow>
               (\<forall>g \<in> set fs. fname g \<noteq> ''patient_age'' \<longrightarrow> field_errors g kw = [])))"
  using assms(1)
    rejects_field_iff [OF Prescription_patient_age, of clk kw]
    rejects_field_iff [OF PrescriptionCreate_patient_age, of clk kw]
    validation_succeeds_split [OF Prescription_patient_age, of clk kw]
    validation_succeeds_split [OF PrescriptionCreate_patient_age, of clk kw]
    patient_age_field_errors [OF assms(2)]
  by auto

theorem patient_age_range_witness:
  "rejects_field Prescription_fields (\<lambda>k. 0) [(''patient_age'', VInt (- 1))] ''patient_age''
   \<and> rejects_field PrescriptionCreate_fields (\<lambda>k. 0)
       [(''patient_age'', VInt 151)] ''patient_age''
   \<and> validation_succeeds PrescriptionCreate_fields (\<lambda>k. 0)
       [(''patient_age'', VInt 0), (''image_id'', VInt 1), (''analysis_session_id'', VInt 1)]
   \<and> validation_succeeds Prescription_fields (\<lambda>k. 0)
       [(''patient_age'', VInt 150), (''image_id'', VInt 1), (''analysis_session_id'', VInt 1)]"
  using
    patient_age_range [of Prescription_fields "[(''patient_age'', VInt (- 1))]" "- 1" "\<lambda>k. 0"]
    patient_age_range [of PrescriptionCreate_fields "[(''patient_age'', VInt 151)]" 151
      "\<lambda>k. 0"]
    patient_age_range [of PrescriptionCreate_fields
      "[(''patient_age'', VInt 0), (''image_id'', VInt 1), (''analysis_session_id'', VInt 1)]"
      0 "\<lambda>k. 0"]
    patient_age_range [of Prescription_fields
      "[(''patient_age'', VInt 150), (''image_id'', VInt 1), (''analysis_session_id'', VInt 1)]"
      150 "\<lambda>k. 0"]
  by (simp add: Prescription_fields_def PrescriptionCreate_fields_def field_errors_def)

section \<open>Defaults\<close>












text \<open>
  The constructors of the two table classes, which validate nothing, fill the same
  defaults.
\<close>

lemma table_constructor_defaults:
  "construct User_table User_fields clk [(''name'', VStr n), (''email'', VStr e)] =
     Inr [(''id'', VNone), (''name'', VStr n), (''email'', VStr e),
          (''is_active'', VBool True), (''created_at'', VDatetime (clk 0)),
          (''updated_at'', VDatetime (clk 1))]"
  "construct AnalysisSession_table AnalysisSession_fields clk
     [(''user_id'', VInt u), (''image_id'', VInt i)] =
     Inr [(''id'', VNone), (''status'', VStatus PENDING), (''started_at'', VDatetime (clk 0)),
          (''completed_at'', VNone), (''processing_time_seconds'', VNone),
          (''model_name'', VStr ''gemini-flash''), (''model_version'', VNone),
          (''error_message'', VNone), (''error_code'', VNone), (''raw_response'', VDict []),
          (''confidence_score'', VNone), (''user_id'', VInt u), (''image_id'', VInt i)]"
  by (simp_all add: construct_def User_table_def AnalysisSession_table_def User_fields_def
      AnalysisSession_fields_def)


lemma PrescriptionCreate_medications:
  "filter (\<lambda>f. fname f = ''medications'') PrescriptionCreate_fields =
     [Field ''medications'' (TList (TModel MedicationCreate_fields)) (Default (VList [])) [] []]"
  by (simp add: PrescriptionCreate_fields_def)



section \<open>Request shapes\<close>

text \<open>
  Claim C8, as amended. \<^verbatim>\<open>UserCreate\<close> has exactly the fields name and email,
  \<^verbatim>\<open>AnalysisSessionCreate\<close> exactly image_id, model_name and model_version. The
  fields of \<^verbatim>\<open>UserCreate\<close>, \<^verbatim>\<open>AnalysisSessionCreate\<close>, \<^verbatim>\<open>MedicationCreate\<close> (and of
  \<^verbatim>\<open>PrescriptionImageUpload\<close>) are fields of their entity. Those of
  \<^verbatim>\<open>PrescriptionCreate\<close> are fields of \<^verbatim>\<open>Prescription\<close> but for \<^verbatim>\<open>medications\<close>, a list
  of \<^verbatim>\<open>MedicationCreate\<close>, which is no field of the entity: the entity has a
  relationship of that name, to \<^verbatim>\<open>Medication\<close>. No field of a Create shape is
  server-assigned: neither one of the entity's own server-assigned fields (the
  primary key and the default-factory timestamps) nor any of id, created_at,
  updated_at, started_at, upload_timestamp.
\<close>

theorem create_shapes_fields:
  "field_names UserCreate_fields = [''name'', ''email'']
   \<and> field_names AnalysisSessionCreate_fields = [''image_id'', ''model_name'', ''model_version'']
   \<and> set (field_names UserCreate_fields) \<subseteq> set (field_names User_fields)
   \<and> set (field_names AnalysisSessionCreate_fields) \<subseteq> set (field_names AnalysisSession_fields)
   \<and> set (field_names MedicationCreate_fields) \<subseteq> set (field_names Medication_fields)
   \<and> set (field_names PrescriptionImageUpload_fields) \<subseteq> set (field_names PrescriptionImage_fields)
   \<and> set (field_names PrescriptionCreate_fields) \<subseteq>
       set (attribute_names Prescription_fields Prescription_relationships)
   \<and> set (removeAll ''medications'' (field_names PrescriptionCreate_fields)) \<subseteq>
       set (field_names Prescription_fields)
   \<and> ''medications'' \<notin> set (field_names Prescription_fields)
   \<and> map rtarget (filter (\<lambda>r. rname r = ''medications'') Prescription_relationships) =
       [''Medication'']
   \<and> map ftyp (filter (\<lambda>f. fname f = ''medications'') PrescriptionCreate_fields) =
       [TList (TModel MedicationCreate_fields)]
   \<and> server_assigned User_fields = [''id'', ''created_at'', ''updated_at'']
   \<and> server_assigned PrescriptionImage_fields = [''id'', ''upload_timestamp'']
   \<and> server_assigned AnalysisSession_fields = [''id'', ''started_at'']
   \<and> server_assigned Prescription_fields = [''id'', ''created_at'', ''updated_at'']
   \<and> server_assigned Medication_fields = [''id'', ''created_at'']
   \<and> set (field_names UserCreate_fields) \<inter>
       {''id'', ''created_at'', ''updated_at'', ''started_at'', ''upload_timestamp''} = {}
   \<and> set (field_names AnalysisSessionCreate_fields) \<inter>
       {''id'', ''created_at'', ''updated_at'', ''started_at'', ''upload_timestamp''} = {}
   \<and> set (field_names MedicationCreate_fields) \<inter>
       {''id'', ''created_at'', ''updated_at'', ''started_at'', ''upload_timestamp''} = {}
   \<and> set (field_names PrescriptionCreate_fields) \<inter>
       {''id'', ''created_at'', ''updated_at'', ''started_at'', ''upload_timestamp''} = {}
   \<and> set (field_names PrescriptionImageUpload_fields) \<inter>
       {''id'', ''created_at'', ''updated_at'', ''started_at'', ''upload_timestamp''} = {}"
proof -
  have names:
    "field_names UserCreate_fields = [''name'', ''email'']"
    "field_names AnalysisSessionCreate_fields = [''image_id'', ''model_name'', ''model_version'']"
    "field_names MedicationCreate_fields =
       [''name'', ''generic_name'', ''brand_name'', ''medication_type'', ''strength'',
        ''dosage_form'', ''dosage_instructions'', ''frequency'', ''duration'', ''quantity'',
        ''before_after_meal'', ''special_instructions'', ''order_index'', ''confidence_score'']"
    "field_names PrescriptionImageUpload_fields =
       [''filename'', ''file_size'', ''mime_type'', ''width'', ''height'']"
    "field_names PrescriptionCreate_fields =
       [''doctor_name'', ''doctor_license'', ''clinic_name'', ''clinic_address'',
        ''patient_name'', ''patient_age'', ''patient_gender'', ''prescription_date'',
        ''prescription_number'', ''diagnosis'', ''notes'', ''image_id'',
        ''analysis_session_id'', ''medications'']"
    by (simp_all add: field_names_def UserCreate_fields_def AnalysisSessionCreate_fields_def
        MedicationCreate_fields_def PrescriptionImageUpload_fields_def
        PrescriptionCreate_fields_def)
  have entities:
    "field_names User_fields =
       [''id'', ''name'', ''email'', ''is_active'', ''created_at'', ''updated_at'']"
    "field_names PrescriptionImage_fields =
       [''id'', ''filename'', ''original_filename'', ''file_path'', ''file_size'', ''mime_type'',
        ''width'', ''height'', ''upload_timestamp'', ''user_id'']"
    "field_names AnalysisSession_fields =
       [''id'', ''status'', ''started_at'', ''completed_at'', ''processing_time_seconds'',
        ''model_name'', ''model_version'', ''error_message'', ''error_code'', ''raw_response'',
        ''confidence_score'', ''user_id'', ''image_id'']"
    "field_names Prescription_fields =
       [''id'', ''doctor_name'', ''doctor_license'', ''clinic_name'', ''clinic_address'',
        ''patient_name'', ''patient_age'', ''patient_gender'', ''prescription_date'',
        ''prescription_number'', ''diagnosis'', ''notes'', ''created_at'', ''updated_at'',
        ''image_id'', ''analysis_session_id'']"
    "field_names Medication_fields =
       [''id'', ''name'', ''generic_name'', ''brand_name'', ''medication_type'', ''strength'',
        ''dosage_form'', ''dosage_instructions'', ''frequency'', ''duration'', ''quantity'',
        ''before_after_meal'', ''special_instructions'', ''order_index'', ''confidence_score'',
        ''created_at'', ''prescription_id'']"
    by (simp_all add: field_names_def User_fields_def PrescriptionImage_fields_def
        AnalysisSession_fields_def Prescription_fields_def Medication_fields_def)
  have attrs:
    "attribute_names Prescription_fields Prescription_relationships =
       field_names Prescription_fields @ [''image'', ''analysis_session'', ''medications'']"
    by (simp add: attribute_names_def field_names_def Prescription_relationships_def)
  have assigned:
    "server_assigned User_fields = [''id'', ''created_at'', ''updated_at'']"
    "server_assigned PrescriptionImage_fields = [''id'', ''upload_timestamp'']"
    "server_assigned AnalysisSession_fields = [''id'', ''started_at'']"
    "server_assigned Prescription_fields = [''id'', ''created_at'', ''updated_at'']"
    "server_assigned Medication_fields = [''id'', ''created_at'']"
    by (simp_all add: server_assigned_def User_fields_def PrescriptionImage_fields_def
        AnalysisSession_fields_def Prescription_fields_def Medication_fields_def)
  have rel: "map rtarget (filter (\<lambda>r. rname r = ''medications'') Prescription_relationships) =
       [''Medication'']"
    by (simp add: Prescription_relationships_def)
  show ?thesis
    unfolding attrs names entities assigned rel PrescriptionCreate_medications by simp
qed

text \<open>
  The claim as it was stated fails for \<^verbatim>\<open>PrescriptionCreate\<close>: its field
  \<^verbatim>\<open>medications\<close> is no field of \<^verbatim>\<open>Prescription\<close>, so its fields are not a subset of
  the entity's fields.
\<close>

theorem create_shapes_fields_counterexample:
  "''medications'' \<in> set (field_names PrescriptionCreate_fields)
   \<and> ''medications'' \<notin> set (field_names Prescription_fields)
   \<and> \<not> set (field_names PrescriptionCreate_fields) \<subseteq> set (field_names Prescription_fields)"
proof -
  have a: "''medications'' \<in> set (field_names PrescriptionCreate_fields)"
    by (simp add: field_names_def PrescriptionCreate_fields_def)
  have b: "''medications'' \<notin> set (field_names Prescription_fields)"
    by (simp add: field_names_def Prescription_fields_def)
  from a b show ?thesis by blast
qed

section \<open>Properties of the store\<close>

lemma map_of_filter_other:
  "c' \<noteq> c \<Longrightarrow> map_of (filter (\<lambda>kv. fst kv \<noteq> c) r) c' = map_of r c'"
  by (induction r) auto


lemma col_set_col_other: "c' \<noteq> c \<Longrightarrow> col (set_col c v r) c' = col r c'"
  by (simp add: col_def set_col_def map_of_filter_other)

lemma fold_assign_other:
  "c \<notin> set cs \<Longrightarrow>
   col (fold (\<lambda>c r'. if col r' c = VNone then set_col c (g c) r' else r') cs r) c = col r c"
  by (induction cs arbitrary: r) (auto simp: col_set_col_other)

lemma assign_ids_other: "c \<notin> set (pk_cols fs) \<Longrightarrow> col (assign_ids fs rows r) c = col r c"
  unfolding assign_ids_def by (rule fold_assign_other)



lemma insert_row_Inr:
  "insert_row t fs r st = (Inr r', st') \<longleftrightarrow>
     r' = assign_ids fs (st t) r \<and> fk_violations st fs r' = []
     \<and> unique_violations fs (st t) r' = [] \<and> st' = st(t := st t @ [r'])"
proof
  assume "insert_row t fs r st = (Inr r', st')"
  then show "r' = assign_ids fs (st t) r \<and> fk_violations st fs r' = []
     \<and> unique_violations fs (st t) r' = [] \<and> st' = st(t := st t @ [r'])"
    by (auto simp: insert_row_def Let_def split: list.splits)
next
  assume a: "r' = assign_ids fs (st t) r \<and> fk_violations st fs r' = []
     \<and> unique_violations fs (st t) r' = [] \<and> st' = st(t := st t @ [r'])"
  from a have e1: "r' = assign_ids fs (st t) r"
    and e2: "fk_violations st fs r' = []"
    and e3: "unique_violations fs (st t) r' = []"
    and e4: "st' = st(t := st t @ [r'])"
    by blast+
  from e2 have f2: "fk_violations st fs (assign_ids fs (st t) r) = []" unfolding e1 .
  from e3 have f3: "unique_violations fs (st t) (assign_ids fs (st t) r) = []" unfolding e1 .
  show "insert_row t fs r st = (Inr r', st')"
    unfolding insert_row_def Let_def f2 f3 e4 e1 by simp
qed

lemma insert_row_Inl: "insert_row t fs r st = (Inl e, st') \<Longrightarrow> st' = st"
  by (auto simp: insert_row_def Let_def split: list.splits)

lemma insert_row_referential:
  "fk_violations st fs (assign_ids fs (st t) r) \<noteq> [] \<Longrightarrow>
   insert_row t fs r st =
     (Inl (ReferentialError (fk_violations st fs (assign_ids fs (st t) r))), st)"
  by (auto simp: insert_row_def Let_def split: list.splits)

lemma insert_row_not_unique:
  "fk_violations st fs (assign_ids fs (st t) r) = [] \<Longrightarrow>
   unique_violations fs (st t) (assign_ids fs (st t) r) \<noteq> [] \<Longrightarrow>
   insert_row t fs r st =
     (Inl (ValidationError (map (\<lambda>c. LineError [Key c] NotUnique)
        (unique_violations fs (st t) (assign_ids fs (st t) r)))), st)"
  by (auto simp: insert_row_def Let_def split: list.splits)

lemma fk_violations_Nil_iff:
  "fk_violations st fs r = [] \<longleftrightarrow>
     (\<forall>(k, t, c) \<in> set (foreign_keys fs). col r k \<in> set (column st t c))"
  by (auto simp: fk_violations_def filter_empty_conv)

lemma unique_violations_Nil_iff:
  "unique_violations fs rows r = [] \<longleftrightarrow>
     (\<forall>c \<in> set (unique_cols fs). col r c \<notin> set (map (\<lambda>r'. col r' c) rows))"
  by (auto simp: unique_violations_def filter_empty_conv)

lemma fk_violations_mono:
  assumes "\<And>t. set (st t) \<subseteq> set (st' t)" and "fk_violations st fs r = []"
  shows "fk_violations st' fs r = []"
proof -
  have "set (column st t c) \<subseteq> set (column st' t c)" for t c
    using assms(1) [of t] by (auto simp: column_def)
  with assms(2) show ?thesis
    unfolding fk_violations_Nil_iff by blast
qed

lemma tables_functional:
  "(t, fs) \<in> set tables \<Longrightarrow> (t, fs') \<in> set tables \<Longrightarrow> fs = fs'"
  by (auto simp: tables_def User_tablename_def PrescriptionImage_tablename_def
      AnalysisSession_tablename_def Prescription_tablename_def Medication_tablename_def)

text \<open>A successful create keeps every unique column free of duplicates and every
  foreign key pointing to a row.\<close>

lemma store_ok_insert:
  assumes ok: "store_ok st" and tab: "(t, fs) \<in> set tables"
    and ins: "insert_row t fs r st = (Inr r', st')"
  shows "store_ok st'"
proof -
  from ins have fk: "fk_violations st fs r' = []"
    and un: "unique_violations fs (st t) r' = []"
    and st': "st' = st(t := st t @ [r'])"
    by (auto simp: insert_row_Inr)
  have mono: "set (st t2) \<subseteq> set (st' t2)" for t2
    by (auto simp: st')
  have old: "unique_ok fs2 (st t2) \<and> fk_ok st fs2 (st t2)" if "(t2, fs2) \<in> set tables" for t2 fs2
    using ok that by (auto simp: store_ok_def list_all_iff)
  have "unique_ok fs2 (st' t2) \<and> fk_ok st' fs2 (st' t2)"
    if mem: "(t2, fs2) \<in> set tables" for t2 fs2
  proof (cases "t2 = t")
    case True
    with mem tab have fs2: "fs2 = fs" by (auto dest: tables_functional)
    have rows: "st' t2 = st t @ [r']" by (simp add: st' True)
    from old [OF tab] have u: "unique_ok fs (st t)" and f: "fk_ok st fs (st t)" by simp_all
    have "unique_ok fs (st t @ [r'])"
      using u un unfolding unique_ok_def list_all_iff unique_violations_Nil_iff by auto
    moreover have "fk_ok st' fs (st t @ [r'])"
      using f fk fk_violations_mono [of st st', OF mono]
      unfolding fk_ok_def list_all_iff by auto
    ultimately show ?thesis by (simp add: rows fs2)
  next
    case False
    then have rows: "st' t2 = st t2" by (simp add: st')
    from old [OF mem] have u: "unique_ok fs2 (st t2)" and f: "fk_ok st fs2 (st t2)" by simp_all
    have "fk_ok st' fs2 (st t2)"
      using f fk_violations_mono [of st st', OF mono]
      unfolding fk_ok_def list_all_iff by auto
    with u show ?thesis by (simp add: rows)
  qed
  then show ?thesis
    by (auto simp: store_ok_def list_all_iff)
qed

lemma store_ok_empty: "store_ok empty_store"
  by (simp add: store_ok_def unique_ok_def fk_ok_def empty_store_def list_all_iff)

lemma reachable_store_ok: "reachable st \<Longrightarrow> store_ok st"
proof (induction rule: reachable.induct)
  case reachable_empty
  show ?case by (rule store_ok_empty)
next
  case (reachable_insert st t fs r r' st')
  then show ?case by (blast intro: store_ok_insert)
qed

lemma reachable_after_create:
  assumes "reachable st" and "(t, fs) \<in> set tables"
  shows "reachable (after_create t fs clk kw st)"
proof (cases "model_validate fs clk kw")
  case (Inl e)
  with assms(1) show ?thesis by (simp add: after_create_def)
next
  case (Inr r)
  obtain res st' where ins: "insert_row t fs r st = (res, st')"
    by (cases "insert_row t fs r st")
  show ?thesis
  proof (cases res)
    case (Inl e)
    with ins have "st' = st" by (auto dest: insert_row_Inl)
    with assms(1) Inr ins show ?thesis by (simp add: after_create_def)
  next
    case r': (Inr r')
    with ins assms have "reachable st'" by (auto intro: reachable_insert)
    with Inr ins show ?thesis by (simp add: after_create_def)
  qed
qed

lemma tables_mem:
  "(User_tablename, User_fields) \<in> set tables"
  "(PrescriptionImage_tablename, PrescriptionImage_fields) \<in> set tables"
  "(AnalysisSession_tablename, AnalysisSession_fields) \<in> set tables"
  "(Prescription_tablename, Prescription_fields) \<in> set tables"
  "(Medication_tablename, Medication_fields) \<in> set tables"
  by (simp_all add: tables_def)

lemma reachable_stores:
  "reachable store_1" "reachable store_2" "reachable store_3" "reachable store_4"
  "reachable store_5" "reachable store_6"
  unfolding store_1_def store_2_def store_3_def store_4_def store_5_def store_6_def
  by (intro reachable_after_create reachable_empty tables_mem)+

text \<open>The columns that the declarations mark, class by class.\<close>

lemma unique_cols_simps:
  "unique_cols User_fields = [''id'', ''email'']"
  "unique_cols PrescriptionImage_fields = [''id'']"
  "unique_cols AnalysisSession_fields = [''id'']"
  "unique_cols Prescription_fields = [''id'']"
  "unique_cols Medication_fields = [''id'']"
  by (simp_all add: unique_cols_def User_fields_def PrescriptionImage_fields_def
      AnalysisSession_fields_def Prescription_fields_def Medication_fields_def)

lemma pk_cols_simps:
  "pk_cols User_fields = [''id'']"
  "pk_cols PrescriptionImage_fields = [''id'']"
  "pk_cols AnalysisSession_fields = [''id'']"
  "pk_cols Prescription_fields = [''id'']"
  "pk_cols Medication_fields = [''id'']"
  by (simp_all add: pk_cols_def User_fields_def PrescriptionImage_fields_def
      AnalysisSession_fields_def Prescription_fields_def Medication_fields_def)

lemma foreign_keys_simps:
  "foreign_keys User_fields = []"
  "foreign_keys PrescriptionImage_fields = [(''user_id'', ''users'', ''id'')]"
  "foreign_keys AnalysisSession_fields =
     [(''user_id'', ''users'', ''id''), (''image_id'', ''prescription_images'', ''id'')]"
  "foreign_keys Prescription_fields =
     [(''image_id'', ''prescription_images'', ''id''),
      (''analysis_session_id'', ''analysis_sessions'', ''id'')]"
  "foreign_keys Medication_fields = [(''prescription_id'', ''prescriptions'', ''id'')]"
  by (simp_all add: foreign_keys_def User_fields_def PrescriptionImage_fields_def
      AnalysisSession_fields_def Prescription_fields_def Medication_fields_def)

lemma tablename_simps:
  "User_tablename = ''users''"
  "PrescriptionImage_tablename = ''prescription_images''"
  "AnalysisSession_tablename = ''analysis_sessions''"
  "Prescription_tablename = ''prescriptions''"
  "Medication_tablename = ''medications''"
  by (simp_all add: User_tablename_def PrescriptionImage_tablename_def
      AnalysisSession_tablename_def Prescription_tablename_def Medication_tablename_def)

lemma store_ok_email:
  assumes "store_ok st"
  shows "distinct (column st User_tablename ''email'')"
  using assms
  by (simp add: store_ok_def tables_def unique_ok_def unique_cols_simps column_def)

lemma fk_ok_subset:
  "fk_ok st fs (st t) \<longleftrightarrow>
     (\<forall>(k, pt, pc) \<in> set (foreign_keys fs). set (column st t k) \<subseteq> set (column st pt pc))"
  unfolding fk_ok_def list_all_iff fk_violations_Nil_iff
  by (fastforce simp: column_def)

lemma store_ok_foreign_keys:
  assumes "store_ok st"
  shows "set (column st PrescriptionImage_tablename ''user_id'') \<subseteq>
           set (column st User_tablename ''id'')"
    and "set (column st AnalysisSession_tablename ''user_id'') \<subseteq>
           set (column st User_tablename ''id'')"
    and "set (column st AnalysisSession_tablename ''image_id'') \<subseteq>
           set (column st PrescriptionImage_tablename ''id'')"
    and "set (column st Prescription_tablename ''image_id'') \<subseteq>
           set (column st PrescriptionImage_tablename ''id'')"
    and "set (column st Prescription_tablename ''analysis_session_id'') \<subseteq>
           set (column st AnalysisSession_tablename ''id'')"
    and "set (column st Medication_tablename ''prescription_id'') \<subseteq>
           set (column st Prescription_tablename ''id'')"
  using assms
  by (simp_all add: store_ok_def tables_def fk_ok_subset foreign_keys_simps tablename_simps)

section \<open>Uniqueness of the email and referential integrity\<close>

text \<open>
  Claim C2. In every reachable store no two users have the same email. Writing a
  user whose email a stored user already has fails with an error that names
  \<^verbatim>\<open>email\<close> and leaves the store as it was, and a write that succeeds keeps the
  emails distinct.
\<close>

theorem user_email_unique:
  "(reachable st \<longrightarrow> distinct (column st User_tablename ''email''))
   \<and> (col r ''email'' \<in> set (column st User_tablename ''email'') \<longrightarrow>
        (\<exists>es. insert_row User_tablename User_fields r st = (Inl (ValidationError es), st)
              \<and> ''email'' \<in> set (names_of (ValidationError es))))
   \<and> (distinct (column st User_tablename ''email'')
        \<and> insert_row User_tablename User_fields r st = (Inr r', st') \<longrightarrow>
        distinct (column st' User_tablename ''email''))"
proof (intro conjI impI)
  assume "reachable st"
  then show "distinct (column st User_tablename ''email'')"
    by (intro store_ok_email reachable_store_ok)
next
  assume dup: "col r ''email'' \<in> set (column st User_tablename ''email'')"
  let ?r = "assign_ids User_fields (st User_tablename) r"
  have same: "col ?r ''email'' = col r ''email''"
    by (rule assign_ids_other) (simp add: pk_cols_simps)
  have fk: "fk_violations st User_fields ?r = []"
    by (simp add: fk_violations_def foreign_keys_simps)
  have "''email'' \<in> set (unique_violations User_fields (st User_tablename) ?r)"
    using dup same by (simp add: unique_violations_def unique_cols_simps column_def)
  then have mem: "''email'' \<in> set (names_of (ValidationError (map (\<lambda>c. LineError [Key c] NotUnique)
      (unique_violations User_fields (st User_tablename) ?r))))"
    and ne: "unique_violations User_fields (st User_tablename) ?r \<noteq> []"
    by (auto simp: comp_def)
  from insert_row_not_unique [OF fk ne] mem
  show "\<exists>es. insert_row User_tablename User_fields r st = (Inl (ValidationError es), st)
              \<and> ''email'' \<in> set (names_of (ValidationError es))"
    by blast
next
  assume a: "distinct (column st User_tablename ''email'')
        \<and> insert_row User_tablename User_fields r st = (Inr r', st')"
  then have un: "unique_violations User_fields (st User_tablename) r' = []"
    and st': "st' = st(User_tablename := st User_tablename @ [r'])"
    by (auto simp: insert_row_Inr)
  from un have "col r' ''email'' \<notin> set (column st User_tablename ''email'')"
    by (simp add: unique_violations_Nil_iff unique_cols_simps column_def)
  with a show "distinct (column st' User_tablename ''email'')"
    by (simp add: st' column_def)
qed

theorem user_email_unique_witness:
  "distinct (column store_1 User_tablename ''email'')
   \<and> column store_1 User_tablename ''email'' = [VStr ''jane@example.com'']
   \<and> (\<exists>es. insert_row User_tablename User_fields
          [(''id'', VNone), (''name'', VStr ''Imposter''), (''email'', VStr ''jane@example.com'')]
          store_1 = (Inl (ValidationError es), store_1)
        \<and> ''email'' \<in> set (names_of (ValidationError es)))
   \<and> distinct (column
        (snd (insert_row User_tablename User_fields
          [(''id'', VNone), (''name'', VStr ''John''), (''email'', VStr ''john@example.com'')]
          store_1)) User_tablename ''email'')"
proof -
  let ?dup = "[(''id'', VNone), (''name'', VStr ''Imposter''),
               (''email'', VStr ''jane@example.com'')]"
  let ?new = "[(''id'', VNone), (''name'', VStr ''John''), (''email'', VStr ''john@example.com'')]"
  let ?john = "[(''id'', VInt 2), (''name'', VStr ''John''), (''email'', VStr ''john@example.com'')]"
  have emails: "column store_1 User_tablename ''email'' = [VStr ''jane@example.com'']"
    by code_simp
  have dup: "col ?dup ''email'' \<in> set (column store_1 User_tablename ''email'')"
    unfolding emails by (simp add: col_def)
  have "fst (insert_row User_tablename User_fields ?new store_1) = Inr ?john"
    by code_simp
  then have new: "insert_row User_tablename User_fields ?new store_1 =
      (Inr ?john, snd (insert_row User_tablename User_fields ?new store_1))"
    by (simp add: prod_eq_iff)
  from user_email_unique [of store_1 ?dup ?john
      "snd (insert_row User_tablename User_fields ?new store_1)"]
    user_email_unique [of store_1 ?new ?john
      "snd (insert_row User_tablename User_fields ?new store_1)"]
    reachable_stores(1) dup new emails
  show ?thesis by blast
qed

text \<open>
  Claim C3. Writing a prescription whose \<^verbatim>\<open>image_id\<close> is the id of no stored image,
  or whose \<^verbatim>\<open>analysis_session_id\<close> is the id of no stored session, fails with a
  \<^verbatim>\<open>ReferentialError\<close> and leaves the store as it was. In every reachable store each
  of the six foreign keys that models.py declares holds only ids of rows of its
  parent table.
\<close>

theorem foreign_keys_enforced:
  "(col r ''image_id'' \<notin> set (column st PrescriptionImage_tablename ''id'')
      \<or> col r ''analysis_session_id'' \<notin> set (column st AnalysisSession_tablename ''id'') \<longrightarrow>
        (\<exists>ks. insert_row Prescription_tablename Prescription_fields r st =
                 (Inl (ReferentialError ks), st)
              \<and> ks \<noteq> [] \<and> set ks \<subseteq> {''image_id'', ''analysis_session_id''}))
   \<and> (reachable st \<longrightarrow>
        set (column st PrescriptionImage_tablename ''user_id'') \<subseteq>
          set (column st User_tablename ''id'')
        \<and> set (column st AnalysisSession_tablename ''user_id'') \<subseteq>
          set (column st User_tablename ''id'')
        \<and> set (column st AnalysisSession_tablename ''image_id'') \<subseteq>
          set (column st PrescriptionImage_tablename ''id'')
        \<and> set (column st Prescription_tablename ''image_id'') \<subseteq>
          set (column st PrescriptionImage_tablename ''id'')
        \<and> set (column st Prescription_tablename ''analysis_session_id'') \<subseteq>
          set (column st AnalysisSession_tablename ''id'')
        \<and> set (column st Medication_tablename ''prescription_id'') \<subseteq>
          set (column st Prescription_tablename ''id''))"
proof (intro conjI impI)
  assume dangling: "col r ''image_id'' \<notin> set (column st PrescriptionImage_tablename ''id'')
      \<or> col r ''analysis_session_id'' \<notin> set (column st AnalysisSession_tablename ''id'')"
  let ?r = "assign_ids Prescription_fields (st Prescription_tablename) r"
  have same: "col ?r ''image_id'' = col r ''image_id''"
    "col ?r ''analysis_session_id'' = col r ''analysis_session_id''"
    by (rule assign_ids_other, simp add: pk_cols_simps)+
  have ne: "fk_violations st Prescription_fields ?r \<noteq> []"
    using dangling same
    by (auto simp: fk_violations_def foreign_keys_simps tablename_simps)
  have sub: "set (fk_violations st Prescription_fields ?r) \<subseteq> {''image_id'', ''analysis_session_id''}"
    by (auto simp: fk_violations_def foreign_keys_simps)
  from insert_row_referential [OF ne] ne sub
  show "\<exists>ks. insert_row Prescription_tablename Prescription_fields r st =
                 (Inl (ReferentialError ks), st)
              \<and> ks \<noteq> [] \<and> set ks \<subseteq> {''image_id'', ''analysis_session_id''}"
    by blast
next
  assume "reachable st"
  then have ok: "store_ok st" by (rule reachable_store_ok)
  from store_ok_foreign_keys [OF ok]
  show "set (column st PrescriptionImage_tablename ''user_id'') \<subseteq>
          set (column st User_tablename ''id'')"
    and "set (column st AnalysisSession_tablename ''user_id'') \<subseteq>
          set (column st User_tablename ''id'')"
    and "set (column st AnalysisSession_tablename ''image_id'') \<subseteq>
          set (column st PrescriptionImage_tablename ''id'')"
    and "set (column st Prescription_tablename ''image_id'') \<subseteq>
          set (column st PrescriptionImage_tablename ''id'')"
    and "set (column st Prescription_tablename ''analysis_session_id'') \<subseteq>
          set (column st AnalysisSession_tablename ''id'')"
    and "set (column st Medication_tablename ''prescription_id'') \<subseteq>
          set (column st Prescription_tablename ''id'')"
    by blast+
qed

theorem foreign_keys_enforced_witness:
  "(\<exists>ks. insert_row Prescription_tablename Prescription_fields
          [(''id'', VNone), (''image_id'', VInt 7), (''analysis_session_id'', VInt 1)] store_3 =
            (Inl (ReferentialError ks), store_3)
        \<and> ks \<noteq> [] \<and> set ks \<subseteq> {''image_id'', ''analysis_session_id''})
   \<and> column store_3 PrescriptionImage_tablename ''id'' = [VInt 1]
   \<and> set (column store_6 Medication_tablename ''prescription_id'') \<subseteq>
       set (column store_6 Prescription_tablename ''id'')
   \<and> column store_6 Medication_tablename ''prescription_id'' = [VInt 1, VInt 1]
   \<and> column store_6 Prescription_tablename ''id'' = [VInt 1]"
proof -
  let ?r = "[(''id'', VNone), (''image_id'', VInt 7), (''analysis_session_id'', VInt 1)]"
  have images: "column store_3 PrescriptionImage_tablename ''id'' = [VInt 1]"
    by code_simp
  have dangling: "col ?r ''image_id'' \<notin> set (column store_3 PrescriptionImage_tablename ''id'')"
    unfolding images by (simp add: col_def)
  have cols: "column store_6 Medication_tablename ''prescription_id'' = [VInt 1, VInt 1]"
    "column store_6 Prescription_tablename ''id'' = [VInt 1]"
    by code_simp+
  from foreign_keys_enforced [of ?r store_3] foreign_keys_enforced [of ?r store_6]
    reachable_stores(6) dangling images cols
  show ?thesis by blast
qed

section \<open>The order of the medications of a prescription\<close>










end
